theory Spec2Isabelle
  imports Main
begin

section \<open>The box model of \<^verbatim>\<open>weasy/formatting_structure/boxes.py\<close>\<close>

text \<open>
  The Python module defines a hierarchy of box classes whose instances form a mutable
  object graph: a box refers to its parent, to its style bag and (for a
  \<^verbatim>\<open>ParentBox\<close>) to the deque of its children. The embedding keeps that graph:
  objects live in a store indexed by references, every method takes the store and
  returns the updated one, and every exception the Python code can raise is a value.
\<close>

subsection \<open>References and errors\<close>

type_synonym ref = nat

text \<open>The exceptions raised by the modelled code (\<^verbatim>\<open>RecursionError\<close> is the
  \<^verbatim>\<open>RuntimeError\<close> "maximum recursion depth exceeded" of Python 2; \<^verbatim>\<open>OverflowError\<close>
  is raised when an integer too large for a float is added to a float).\<close>

datatype error =
    AttributeError | TypeError | AssertionError string | KeyError | RecursionError | OverflowError

subsection \<open>Numbers\<close>

text \<open>
  A length is a Python number: an integer, of any size, or a float. A float is an IEEE 754
  double: \<open>Finite m e\<close> is the number \<open>m * 2 ^ e\<close>, stored with a significand of 53 bits
  (\<open>2 ^ 52 \<le> \<bar>m\<bar> < 2 ^ 53\<close> and \<open>- 1074 \<le> e \<le> 971\<close>), or with fewer bits at the least exponent
  (\<open>\<bar>m\<bar> < 2 ^ 52\<close> and \<open>e = - 1074\<close>), or as \<open>Finite 0 0\<close> for zero; so \<open>1.0\<close> is
  \<open>Finite (2 ^ 52) (- 52)\<close>. The sign of zero, which \<^verbatim>\<open>+\<close> and \<^verbatim>\<open>==\<close> do not observe on the
  numbers here, is not kept.
\<close>

datatype double = Finite int int | PosInf | NegInf | NaN

datatype num = PyInt int | PyFloat double

text \<open>The number of binary digits of a natural number.\<close>

fun bit_length :: "nat \<Rightarrow> nat" where
  "bit_length n = (if n = 0 then 0 else Suc (bit_length (n div 2)))"

text \<open>\<open>m / 2 ^ s\<close> rounded to the nearest integer, a tie going to the even one.\<close>

definition round_half_even :: "int \<Rightarrow> nat \<Rightarrow> int" where
  "round_half_even m s =
     (if 2 * (m mod 2 ^ s) < 2 ^ s then m div 2 ^ s
      else if 2 ^ s < 2 * (m mod 2 ^ s) then m div 2 ^ s + 1
      else if even (m div 2 ^ s) then m div 2 ^ s
      else m div 2 ^ s + 1)"

text \<open>
  The double nearest to \<open>m * 2 ^ e\<close> (round to nearest, ties to even). The exponent of the
  result is the one that leaves 53 bits, but at least \<open>- 1074\<close>.
\<close>

definition double_exponent :: "int \<Rightarrow> int \<Rightarrow> int" where
  "double_exponent m e = max (e + int (bit_length (nat \<bar>m\<bar>)) - 53) (- 1074)"

text \<open>The significand at the exponent \<open>e'\<close>: exact when \<open>e' \<le> e\<close>, rounded otherwise.\<close>

definition significand_at :: "int \<Rightarrow> int \<Rightarrow> int \<Rightarrow> int" where
  "significand_at m e e' =
     (if e' \<le> e then m * 2 ^ nat (e - e') else round_half_even m (nat (e' - e)))"

text \<open>A significand and an exponent as a double: zero, or an infinity of the given sign
  when the exponent is too large.\<close>

definition pack_double :: "bool \<Rightarrow> int \<Rightarrow> int \<Rightarrow> double" where
  "pack_double positive m e =
     (if m = 0 then Finite 0 0
      else if 971 < e then (if positive then PosInf else NegInf)
      else Finite m e)"

text \<open>Rounding may carry into a 54th bit: then the significand is \<open>2 ^ 53\<close>, which is
  \<open>2 ^ 52\<close> at the next exponent.\<close>

definition round_double :: "int \<Rightarrow> int \<Rightarrow> double" where
  "round_double m e =
     (if \<bar>significand_at m e (double_exponent m e)\<bar> = 2 ^ 53 then
        pack_double (0 < m) (significand_at m e (double_exponent m e) div 2)
          (double_exponent m e + 1)
      else
        pack_double (0 < m) (significand_at m e (double_exponent m e)) (double_exponent m e))"

text \<open>\<^verbatim>\<open>a + b\<close> on floats: the exact sum, rounded.\<close>

fun double_add :: "double \<Rightarrow> double \<Rightarrow> double" where
  "double_add (Finite m1 e1) (Finite m2 e2) =
     round_double (m1 * 2 ^ nat (e1 - min e1 e2) + m2 * 2 ^ nat (e2 - min e1 e2)) (min e1 e2)"
| "double_add NaN _ = NaN"
| "double_add _ NaN = NaN"
| "double_add PosInf NegInf = NaN"
| "double_add NegInf PosInf = NaN"
| "double_add PosInf _ = PosInf"
| "double_add _ PosInf = PosInf"
| "double_add NegInf _ = NegInf"
| "double_add _ NegInf = NegInf"

text \<open>\<^verbatim>\<open>float(a)\<close> for an integer, as the mixed operations do it: the nearest double, and
  \<^verbatim>\<open>OverflowError\<close> when the integer is too large.\<close>

definition float_of_int :: "int \<Rightarrow> error + double" where
  "float_of_int a =
     (case round_double a 0 of
        Finite m e \<Rightarrow> Inr (Finite m e)
      | _ \<Rightarrow> Inl OverflowError)"

text \<open>\<^verbatim>\<open>a + b\<close> on numbers: exact on integers, rounded on floats; an integer added to a
  float is converted to a float first.\<close>

fun py_num_add :: "num \<Rightarrow> num \<Rightarrow> error + num" where
  "py_num_add (PyInt a) (PyInt b) = Inr (PyInt (a + b))"
| "py_num_add (PyFloat a) (PyFloat b) = Inr (PyFloat (double_add a b))"
| "py_num_add (PyInt a) (PyFloat b) =
     (case float_of_int a of Inl e \<Rightarrow> Inl e | Inr fa \<Rightarrow> Inr (PyFloat (double_add fa b)))"
| "py_num_add (PyFloat a) (PyInt b) =
     (case float_of_int b of Inl e \<Rightarrow> Inl e | Inr fb \<Rightarrow> Inr (PyFloat (double_add a fb)))"

subsection \<open>Slots\<close>

text \<open>
  Every class declares \<^verbatim>\<open>__slots__\<close>, so an attribute is either not set
  (reading it raises \<^verbatim>\<open>AttributeError\<close>), set to \<^verbatim>\<open>None\<close>, or set to a value.
\<close>

datatype 'a slot = Unset | PyNone | Val 'a

datatype pyval = IntVal int | StrVal string | ObjRef ref

text \<open>Reading an attribute: the value is \<open>None\<close> for Python's \<^verbatim>\<open>None\<close>.\<close>

fun getattr :: "'a slot \<Rightarrow> error + 'a option" where
  "getattr Unset = Inl AttributeError"
| "getattr PyNone = Inr None"
| "getattr (Val v) = Inr (Some v)"

text \<open>\<^verbatim>\<open>a + b\<close> on numbers and \<^verbatim>\<open>None\<close>: adding \<^verbatim>\<open>None\<close> raises \<^verbatim>\<open>TypeError\<close>.\<close>

fun py_add :: "num option \<Rightarrow> num option \<Rightarrow> error + num option" where
  "py_add (Some a) (Some b) =
     (case py_num_add a b of Inl e \<Rightarrow> Inl e | Inr c \<Rightarrow> Inr (Some c))"
| "py_add _ _ = Inl TypeError"

text \<open>
  One step of a left-nested sum \<^verbatim>\<open>acc + self.attr\<close>: the left operand has been
  evaluated, then the attribute is loaded, then the addition is done.
\<close>

definition add_attr :: "error + num option \<Rightarrow> num slot \<Rightarrow> error + num option" where
  "add_attr acc s =
     (case acc of
        Inl e \<Rightarrow> Inl e
      | Inr a \<Rightarrow> (case getattr s of Inl e \<Rightarrow> Inl e | Inr v \<Rightarrow> py_add a v))"

subsection \<open>Boxes\<close>

text \<open>The concrete classes of the module.\<close>

datatype kind =
    PageBox | BlockBox | AnonymousBlockBox | InlineBox | InlineBlockBox
  | BlockLevelReplacedBox | InlineLevelReplacedBox | TextBox | LineBox | ImageMarkerBox

text \<open>\<^verbatim>\<open>isinstance(box, ParentBox)\<close>, which is also \<^verbatim>\<open>hasattr(box, 'descendants')\<close>:
  \<^verbatim>\<open>PageBox\<close> derives from \<^verbatim>\<open>Box\<close> directly.\<close>

fun is_ParentBox :: "kind \<Rightarrow> bool" where
  "is_ParentBox BlockBox = True"
| "is_ParentBox AnonymousBlockBox = True"
| "is_ParentBox InlineBox = True"
| "is_ParentBox InlineBlockBox = True"
| "is_ParentBox LineBox = True"
| "is_ParentBox _ = False"

text \<open>\<^verbatim>\<open>isinstance(box, AnonymousBox)\<close>.\<close>

fun is_AnonymousBox :: "kind \<Rightarrow> bool" where
  "is_AnonymousBox AnonymousBlockBox = True"
| "is_AnonymousBox LineBox = True"
| "is_AnonymousBox TextBox = True"
| "is_AnonymousBox ImageMarkerBox = True"
| "is_AnonymousBox _ = False"

text \<open>
  A box object. The attributes that \<^verbatim>\<open>Box.__init__\<close> always sets have their own
  type (\<open>parent\<close> is \<open>None\<close> for Python's \<^verbatim>\<open>None\<close>; \<open>style\<close> and \<open>children\<close>
  are references to a style bag and to a deque in the store); the other slots may be
  unset. \<open>other_slots\<close> holds the slots no modelled method reads
  (\<^verbatim>\<open>text_indent\<close>, \<^verbatim>\<open>min_width\<close>, \<^verbatim>\<open>baseline\<close>, \<^verbatim>\<open>page_number\<close>, \<^verbatim>\<open>text\<close>,
  \<^verbatim>\<open>replacement\<close>, ...), by name.
\<close>

record box =
  kind :: kind
  document :: ref
  element :: "ref option"
  parent :: "ref option"
  width :: "num slot"
  height :: "num slot"
  position_x :: num
  position_y :: num
  style :: ref
  children :: "ref slot"
  padding_top :: "num slot"
  padding_right :: "num slot"
  padding_bottom :: "num slot"
  padding_left :: "num slot"
  border_top_width :: "num slot"
  border_right_width :: "num slot"
  border_bottom_width :: "num slot"
  border_left_width :: "num slot"
  margin_top :: "num slot"
  margin_right :: "num slot"
  margin_bottom :: "num slot"
  margin_left :: "num slot"
  outer_width :: "num slot"
  outer_height :: "num slot"
  other_slots :: "string \<Rightarrow> pyval slot"

subsection \<open>Heights and widths\<close>

definition padding_width :: "box \<Rightarrow> error + num option" where
  "padding_width b = add_attr (add_attr (getattr (width b)) (padding_left b)) (padding_right b)"

definition padding_height :: "box \<Rightarrow> error + num option" where
  "padding_height b = add_attr (add_attr (getattr (height b)) (padding_top b)) (padding_bottom b)"

definition border_width :: "box \<Rightarrow> error + num option" where
  "border_width b = add_attr (add_attr (padding_width b) (border_left_width b)) (border_right_width b)"

definition border_height :: "box \<Rightarrow> error + num option" where
  "border_height b = add_attr (add_attr (padding_height b) (border_top_width b)) (border_bottom_width b)"

definition margin_width :: "box \<Rightarrow> error + num option" where
  "margin_width b = add_attr (add_attr (border_width b) (margin_left b)) (margin_right b)"

definition margin_height :: "box \<Rightarrow> error + num option" where
  "margin_height b = add_attr (add_attr (border_height b) (margin_top b)) (margin_bottom b)"

definition horizontal_surroundings :: "box \<Rightarrow> error + num option" where
  "horizontal_surroundings b =
     add_attr (add_attr (add_attr (add_attr (add_attr (getattr (margin_left b)) (margin_right b))
       (padding_left b)) (padding_right b)) (border_left_width b)) (border_right_width b)"

definition vertical_surroundings :: "box \<Rightarrow> error + num option" where
  "vertical_surroundings b =
     add_attr (add_attr (add_attr (add_attr (add_attr (getattr (margin_top b)) (margin_bottom b))
       (padding_top b)) (padding_bottom b)) (border_top_width b)) (border_bottom_width b)"

subsection \<open>Corners positions\<close>







subsection \<open>The store\<close>

text \<open>
  A style bag maps property names to values; \<open>CssNone\<close> is an entry set to
  \<^verbatim>\<open>None\<close>. The class of the bag and \<^verbatim>\<open>get_single_keyword\<close> belong to
  \<^verbatim>\<open>weasy.css\<close>, which is not part of the modelled sources: the functions below take
  \<^verbatim>\<open>get_single_keyword\<close> as a parameter (it may raise), a missing entry raises
  \<^verbatim>\<open>AttributeError\<close>, and \<^verbatim>\<open>style.copy()\<close> is a new bag with the same entries.
\<close>

datatype css_value = CssNone | CssTokens "string list"

type_synonym style_bag = "string \<rightharpoonup> css_value"

type_synonym keyword_reader = "css_value \<Rightarrow> error + string option"

text \<open>
  The store: the box objects, the style bags and the children deques, each indexed by
  references, with the next unused reference of each kind.
\<close>

record heap =
  boxes :: "ref \<Rightarrow> box"
  styles :: "ref \<Rightarrow> style_bag"
  deques :: "ref \<Rightarrow> ref list"
  next_box :: ref
  next_style :: ref
  next_deque :: ref

subsection \<open>Positioning schemes\<close>

text \<open>\<^verbatim>\<open>get_single_keyword(self.style.<name>)\<close>.\<close>

definition keyword_of :: "keyword_reader \<Rightarrow> heap \<Rightarrow> ref \<Rightarrow> string \<Rightarrow> error + string option" where
  "keyword_of get_single_keyword h r name =
     (case styles h (style (boxes h r)) name of
        None \<Rightarrow> Inl AttributeError
      | Some v \<Rightarrow> get_single_keyword v)"

definition is_floated :: "keyword_reader \<Rightarrow> heap \<Rightarrow> ref \<Rightarrow> error + bool" where
  "is_floated get_single_keyword h r =
     (case keyword_of get_single_keyword h r ''float'' of
        Inl e \<Rightarrow> Inl e
      | Inr k \<Rightarrow> Inr (k \<noteq> Some ''none''))"

definition is_absolutely_positioned :: "keyword_reader \<Rightarrow> heap \<Rightarrow> ref \<Rightarrow> error + bool" where
  "is_absolutely_positioned get_single_keyword h r =
     (case keyword_of get_single_keyword h r ''position'' of
        Inl e \<Rightarrow> Inl e
      | Inr k \<Rightarrow> Inr (k = Some ''absolute'' \<or> k = Some ''fixed''))"

text \<open>\<^verbatim>\<open>not (self.is_floated() or self.is_absolutely_positioned())\<close>: the second
  call is made only when the first returns false.\<close>

definition is_in_normal_flow :: "keyword_reader \<Rightarrow> heap \<Rightarrow> ref \<Rightarrow> error + bool" where
  "is_in_normal_flow get_single_keyword h r =
     (case is_floated get_single_keyword h r of
        Inl e \<Rightarrow> Inl e
      | Inr True \<Rightarrow> Inr False
      | Inr False \<Rightarrow>
          (case is_absolutely_positioned get_single_keyword h r of
             Inl e \<Rightarrow> Inl e
           | Inr a \<Rightarrow> Inr (\<not> a)))"

subsection \<open>Resetting the spacing of a side\<close>

text \<open>\<^verbatim>\<open>setattr(self, name, v)\<close> for the names \<^verbatim>\<open>reset_spacing\<close> can build: the
  classes have no \<^verbatim>\<open>__dict__\<close>, so a name that is not a slot raises.\<close>

definition setattr_edge :: "box \<Rightarrow> string \<Rightarrow> num slot \<Rightarrow> error + box" where
  "setattr_edge b name v =
     (if name = ''padding_top'' then Inr (b\<lparr>padding_top := v\<rparr>)
      else if name = ''padding_right'' then Inr (b\<lparr>padding_right := v\<rparr>)
      else if name = ''padding_bottom'' then Inr (b\<lparr>padding_bottom := v\<rparr>)
      else if name = ''padding_left'' then Inr (b\<lparr>padding_left := v\<rparr>)
      else if name = ''border_top_width'' then Inr (b\<lparr>border_top_width := v\<rparr>)
      else if name = ''border_right_width'' then Inr (b\<lparr>border_right_width := v\<rparr>)
      else if name = ''border_bottom_width'' then Inr (b\<lparr>border_bottom_width := v\<rparr>)
      else if name = ''border_left_width'' then Inr (b\<lparr>border_left_width := v\<rparr>)
      else if name = ''margin_top'' then Inr (b\<lparr>margin_top := v\<rparr>)
      else if name = ''margin_right'' then Inr (b\<lparr>margin_right := v\<rparr>)
      else if name = ''margin_bottom'' then Inr (b\<lparr>margin_bottom := v\<rparr>)
      else if name = ''margin_left'' then Inr (b\<lparr>margin_left := v\<rparr>)
      else Inl AttributeError)"

definition reset_spacing :: "heap \<Rightarrow> ref \<Rightarrow> string \<Rightarrow> error + heap" where
  "reset_spacing h r side =
     (case setattr_edge (boxes h r) (''margin_'' @ side) (Val (PyInt 0)) of
        Inl e \<Rightarrow> Inl e
      | Inr b1 \<Rightarrow>
     (case setattr_edge b1 (''padding_'' @ side) (Val (PyInt 0)) of
        Inl e \<Rightarrow> Inl e
      | Inr b2 \<Rightarrow>
     (case setattr_edge b2 (''border_'' @ side @ ''_width'') (Val (PyInt 0)) of
        Inl e \<Rightarrow> Inl e
      | Inr b3 \<Rightarrow>
          Inr (h\<lparr>boxes := (boxes h)(r := b3),
                 styles := (styles h)(style b3 :=
                   (styles h (style b3))
                     (''margin-'' @ side \<mapsto> CssNone,
                      ''padding-'' @ side \<mapsto> CssNone,
                      ''border-'' @ side @ ''-width'' \<mapsto> CssNone))\<rparr>))))"

subsection \<open>Copying\<close>

text \<open>
  \<^verbatim>\<open>copy\<close> makes a new instance of the same class, copies every slot of
  \<^verbatim>\<open>_all_slots\<close> (the slots of the class and of all its ancestors) that is set, and
  gives the new box a copy of the style bag.
\<close>

definition copy :: "heap \<Rightarrow> ref \<Rightarrow> ref \<times> heap" where
  "copy h r =
     (let b = boxes h r;
          new_box = next_box h;
          new_style = next_style h
      in (new_box,
          h\<lparr>boxes := (boxes h)(new_box := b\<lparr>style := new_style\<rparr>),
            styles := (styles h)(new_style := styles h (style b)),
            next_box := Suc new_box,
            next_style := Suc new_style\<rparr>))"

subsection \<open>Translation\<close>

text \<open>A \<^verbatim>\<open>for\<close> loop whose body updates the store and may raise.\<close>

fun for_each :: "('a \<Rightarrow> 's \<Rightarrow> error + 's) \<Rightarrow> 'a list \<Rightarrow> 's \<Rightarrow> error + 's" where
  "for_each body [] s = Inr s"
| "for_each body (x # xs) s =
     (case body x s of Inl e \<Rightarrow> Inl e | Inr s' \<Rightarrow> for_each body xs s')"

text \<open>\<^verbatim>\<open>Box.translate\<close>: the two augmented assignments, in order.\<close>

definition Box_translate :: "box \<Rightarrow> num \<Rightarrow> num \<Rightarrow> error + box" where
  "Box_translate b x y =
     (case py_num_add (position_x b) x of
        Inl e \<Rightarrow> Inl e
      | Inr px \<Rightarrow>
          (case py_num_add (position_y b) y of
             Inl e \<Rightarrow> Inl e
           | Inr py \<Rightarrow> Inr (b\<lparr>position_x := px, position_y := py\<rparr>)))"

text \<open>
  \<^verbatim>\<open>translate\<close>, dispatched on the class: \<^verbatim>\<open>ParentBox.translate\<close> calls
  \<^verbatim>\<open>Box.translate\<close> and then translates every child. The first argument bounds the
  depth of the call stack, as Python's recursion limit does.
\<close>

fun translate :: "nat \<Rightarrow> heap \<Rightarrow> ref \<Rightarrow> num \<Rightarrow> num \<Rightarrow> error + heap" where
  "translate 0 h r x y = Inl RecursionError"
| "translate (Suc n) h r x y =
     (case Box_translate (boxes h r) x y of
        Inl e \<Rightarrow> Inl e
      | Inr b \<Rightarrow>
          (let h1 = h\<lparr>boxes := (boxes h)(r := b)\<rparr>
           in if is_ParentBox (kind b) then
                (case children b of
                   Unset \<Rightarrow> Inl AttributeError
                 | PyNone \<Rightarrow> Inl TypeError
                 | Val d \<Rightarrow> for_each (\<lambda>child h'. translate n h' child x y) (deques h1 d) h1)
              else Inr h1))"

subsection \<open>Children and descendants\<close>

text \<open>\<^verbatim>\<open>ParentBox.empty\<close>: a new, empty deque.\<close>

definition empty :: "heap \<Rightarrow> ref \<Rightarrow> heap" where
  "empty h r =
     h\<lparr>boxes := (boxes h)(r := (boxes h r)\<lparr>children := Val (next_deque h)\<rparr>),
       deques := (deques h)(next_deque h := []),
       next_deque := Suc (next_deque h)\<rparr>"

text \<open>\<^verbatim>\<open>add_child\<close> is a method of \<^verbatim>\<open>ParentBox\<close>: on another box the call raises
  \<^verbatim>\<open>AttributeError\<close>.\<close>

definition add_child :: "heap \<Rightarrow> ref \<Rightarrow> ref \<Rightarrow> error + heap" where
  "add_child h r child =
     (if \<not> is_ParentBox (kind (boxes h r)) then Inl AttributeError
      else
        (let h1 = h\<lparr>boxes := (boxes h)(child := (boxes h child)\<lparr>parent := Some r\<rparr>)\<rparr>
         in case children (boxes h1 r) of
              Val d \<Rightarrow> Inr (h1\<lparr>deques := (deques h1)(d := deques h1 d @ [child])\<rparr>)
            | _ \<Rightarrow> Inl AttributeError))"

text \<open>
  The body of the loop of \<^verbatim>\<open>descendants\<close> over the children: a child that has a
  \<^verbatim>\<open>descendants\<close> method contributes what that method yields, any other child is
  yielded itself.
\<close>

fun yield_children :: "(ref \<Rightarrow> error + ref list) \<Rightarrow> heap \<Rightarrow> ref list \<Rightarrow> error + ref list" where
  "yield_children child_descendants h [] = Inr []"
| "yield_children child_descendants h (child # cs) =
     (if is_ParentBox (kind (boxes h child)) then
        (case child_descendants child of
           Inl e \<Rightarrow> Inl e
         | Inr grand_children \<Rightarrow>
             (case yield_children child_descendants h cs of
                Inl e \<Rightarrow> Inl e
              | Inr rest \<Rightarrow> Inr (grand_children @ rest)))
      else
        (case yield_children child_descendants h cs of
           Inl e \<Rightarrow> Inl e
         | Inr rest \<Rightarrow> Inr (child # rest)))"

text \<open>
  \<^verbatim>\<open>descendants\<close>, as the list of what the generator yields. Only \<^verbatim>\<open>ParentBox\<close>
  defines the method, so calling it on another box raises \<^verbatim>\<open>AttributeError\<close>.
  The first argument bounds the nesting of the generators.
\<close>

fun descendants :: "nat \<Rightarrow> heap \<Rightarrow> ref \<Rightarrow> error + ref list" where
  "descendants 0 h r = Inl RecursionError"
| "descendants (Suc n) h r =
     (if \<not> is_ParentBox (kind (boxes h r)) then Inl AttributeError
      else
        (case children (boxes h r) of
           Unset \<Rightarrow> Inl AttributeError
         | PyNone \<Rightarrow> Inr [r]
         | Val d \<Rightarrow>
             (case yield_children (\<lambda>child. descendants n h child) h (deques h d) of
                Inl e \<Rightarrow> Inl e
              | Inr ys \<Rightarrow> Inr (r # ys))))"

subsection \<open>Ancestors and the containing block\<close>

text \<open>
  \<^verbatim>\<open>ancestors\<close>, as the list of what the generator yields. The loop follows the
  parent references and does not end when they form a cycle: then the value is
  \<open>None\<close>.
\<close>

partial_function (option) ancestors :: "heap \<Rightarrow> ref \<Rightarrow> ref list option" where
  "ancestors h cur =
     (case parent (boxes h cur) of
        None \<Rightarrow> Some []
      | Some p \<Rightarrow> Option.bind (ancestors h p) (\<lambda>ps. Some (p # ps)))"

text \<open>The tuple \<^verbatim>\<open>box.width, box.height\<close>.\<close>

definition box_size :: "box \<Rightarrow> error + num option \<times> num option" where
  "box_size a =
     (case getattr (width a) of
        Inl e \<Rightarrow> Inl e
      | Inr w \<Rightarrow> (case getattr (height a) of Inl e \<Rightarrow> Inl e | Inr ht \<Rightarrow> Inr (w, ht)))"

text \<open>
  The loop of the \<^verbatim>\<open>'fixed'\<close> branch over \<^verbatim>\<open>self.ancestors()\<close>. The generator is
  consumed one ancestor at a time, so the loop is written on the parent references: it
  returns at the first page box, and raises when the ancestors are exhausted.
\<close>

partial_function (option) fixed_loop ::
    "heap \<Rightarrow> ref \<Rightarrow> (error + num option \<times> num option) option" where
  "fixed_loop h cur =
     (case parent (boxes h cur) of
        None \<Rightarrow> Some (Inl (AssertionError ''Page not found''))
      | Some ancestor \<Rightarrow>
          if kind (boxes h ancestor) = PageBox then Some (box_size (boxes h ancestor))
          else fixed_loop h ancestor)"

text \<open>
  The loop of the \<^verbatim>\<open>'absolute'\<close> branch. Both branches of the test on the display
  of a positioned ancestor return the same tuple. When the ancestors are exhausted the
  control reaches the last \<^verbatim>\<open>assert\<close> of the method.
\<close>

partial_function (option) absolute_loop ::
    "keyword_reader \<Rightarrow> heap \<Rightarrow> ref \<Rightarrow> (error + num option \<times> num option) option" where
  "absolute_loop get_single_keyword h cur =
     (case parent (boxes h cur) of
        None \<Rightarrow> Some (Inl (AssertionError ''Containing block not found''))
      | Some ancestor \<Rightarrow>
          (case keyword_of get_single_keyword h ancestor ''position'' of
             Inl e \<Rightarrow> Some (Inl e)
           | Inr position \<Rightarrow>
               if position = Some ''absolute'' \<or> position = Some ''relative''
                  \<or> position = Some ''fixed'' then
                 (case keyword_of get_single_keyword h ancestor ''display'' of
                    Inl e \<Rightarrow> Some (Inl e)
                  | Inr display \<Rightarrow>
                      if display = Some ''inline'' then Some (box_size (boxes h ancestor))
                      else Some (box_size (boxes h ancestor)))
               else if kind (boxes h ancestor) = PageBox then Some (box_size (boxes h ancestor))
               else absolute_loop get_single_keyword h ancestor))"

text \<open>The tuple \<^verbatim>\<open>self.parent.width, self.parent.height\<close>: \<^verbatim>\<open>None\<close> has no
  attribute \<^verbatim>\<open>width\<close>.\<close>

definition parent_size :: "heap \<Rightarrow> box \<Rightarrow> error + num option \<times> num option" where
  "parent_size h self =
     (case parent self of
        None \<Rightarrow> Inl AttributeError
      | Some p \<Rightarrow> box_size (boxes h p))"

text \<open>\<^verbatim>\<open>Box.containing_block_size\<close>.\<close>

definition Box_containing_block_size ::
    "keyword_reader \<Rightarrow> heap \<Rightarrow> ref \<Rightarrow> (error + num option \<times> num option) option" where
  "Box_containing_block_size get_single_keyword h r =
     (let self = boxes h r in
      if (case parent self of None \<Rightarrow> False | Some p \<Rightarrow> kind (boxes h p) = PageBox) then
        Some (parent_size h self)
      else
        (case keyword_of get_single_keyword h r ''position'' of
           Inl e \<Rightarrow> Some (Inl e)
         | Inr position \<Rightarrow>
             if position = Some ''relative'' \<or> position = Some ''static'' then
               Some (parent_size h self)
             else if position = Some ''fixed'' then fixed_loop h r
             else if position = Some ''absolute'' then absolute_loop get_single_keyword h r
             else Some (Inl (AssertionError ''Containing block not found''))))"

text \<open>\<^verbatim>\<open>PageBox.containing_block_size\<close>.\<close>

definition PageBox_containing_block_size :: "box \<Rightarrow> error + num option \<times> num option" where
  "PageBox_containing_block_size self =
     (case getattr (outer_width self) of
        Inl e \<Rightarrow> Inl e
      | Inr w \<Rightarrow> (case getattr (outer_height self) of Inl e \<Rightarrow> Inl e | Inr ht \<Rightarrow> Inr (w, ht)))"

text \<open>The method call \<^verbatim>\<open>box.containing_block_size()\<close>, dispatched on the class.\<close>

definition containing_block_size ::
    "keyword_reader \<Rightarrow> heap \<Rightarrow> ref \<Rightarrow> (error + num option \<times> num option) option" where
  "containing_block_size get_single_keyword h r =
     (if kind (boxes h r) = PageBox then Some (PageBox_containing_block_size (boxes h r))
      else Box_containing_block_size get_single_keyword h r)"

subsection \<open>Construction\<close>

text \<open>
  The style provider, outside the modelled sources: \<^verbatim>\<open>document.style_for(element)\<close>,
  \<^verbatim>\<open>computed_from_cascaded(element, {}, parent_style)\<close> and the table
  \<^verbatim>\<open>document.computed_styles['@page', page_type]\<close>.
\<close>

record provider =
  style_for :: "ref \<Rightarrow> ref option \<Rightarrow> style_bag"
  computed_from_cascaded :: "ref option \<Rightarrow> style_bag \<Rightarrow> style_bag"
  computed_styles :: "ref \<Rightarrow> string \<rightharpoonup> style_bag"

text \<open>The style bag \<^verbatim>\<open>_init_style\<close> assigns, by the class that defines the method
  for the kind: \<^verbatim>\<open>AnonymousBox\<close>, \<^verbatim>\<open>PageBox\<close> or \<^verbatim>\<open>Box\<close>.\<close>

definition init_style_bag ::
    "provider \<Rightarrow> kind \<Rightarrow> (string \<Rightarrow> pyval slot) \<Rightarrow> ref \<Rightarrow> ref option \<Rightarrow> error + style_bag" where
  "init_style_bag P k slots doc el =
     (if is_AnonymousBox k then Inr (computed_from_cascaded P el (style_for P doc el))
      else if k = PageBox then
        (case slots ''page_number'' of
           Unset \<Rightarrow> Inl AttributeError
         | Val (IntVal page_number) \<Rightarrow>
             (let is_right = (page_number mod 2 = 1);
                  page_type = (if is_right then ''right'' else ''left'');
                  page_type = (if page_number = 1 then ''first_'' @ page_type else page_type)
              in case computed_styles P doc page_type of
                   None \<Rightarrow> Inl KeyError
                 | Some s \<Rightarrow> Inr s)
         | _ \<Rightarrow> Inl TypeError)
      else Inr (style_for P doc el))"

text \<open>The assignments of \<^verbatim>\<open>AnonymousBox._init_style\<close> after the style.\<close>

definition zero_spacing :: "box \<Rightarrow> box" where
  "zero_spacing b =
     b\<lparr>margin_top := Val (PyInt 0), margin_bottom := Val (PyInt 0),
       margin_left := Val (PyInt 0), margin_right := Val (PyInt 0),
       padding_top := Val (PyInt 0), padding_bottom := Val (PyInt 0),
       padding_left := Val (PyInt 0), padding_right := Val (PyInt 0),
       border_top_width := Val (PyInt 0), border_bottom_width := Val (PyInt 0),
       border_left_width := Val (PyInt 0), border_right_width := Val (PyInt 0)\<rparr>"

text \<open>
  \<^verbatim>\<open>Box.__init__\<close> on a new instance of class \<open>k\<close> whose slots \<open>slots\<close> a subclass
  has set before (the page number of a page box). Returns the new box.
\<close>

definition Box_init ::
    "provider \<Rightarrow> heap \<Rightarrow> kind \<Rightarrow> (string \<Rightarrow> pyval slot) \<Rightarrow> ref \<Rightarrow> ref option
       \<Rightarrow> error + ref \<times> heap" where
  "Box_init P h k slots doc el =
     (case init_style_bag P k slots doc el of
        Inl e \<Rightarrow> Inl e
      | Inr s \<Rightarrow>
          (let b0 = \<lparr>kind = k, document = doc, element = el, parent = None,
                     width = Unset, height = Unset, position_x = PyInt 0, position_y = PyInt 0,
                     style = next_style h, children = Unset,
                     padding_top = Unset, padding_right = Unset, padding_bottom = Unset,
                     padding_left = Unset, border_top_width = Unset, border_right_width = Unset,
                     border_bottom_width = Unset, border_left_width = Unset,
                     margin_top = Unset, margin_right = Unset, margin_bottom = Unset,
                     margin_left = Unset, outer_width = Unset, outer_height = Unset,
                     other_slots = slots\<rparr>;
               b1 = (if is_AnonymousBox k then zero_spacing b0 else b0);
               b2 = b1\<lparr>width := PyNone, height := PyNone,
                       position_x := PyInt 0, position_y := PyInt 0\<rparr>
           in Inr (next_box h,
                   h\<lparr>boxes := (boxes h)(next_box h := b2),
                     styles := (styles h)(next_style h := s),
                     next_box := Suc (next_box h),
                     next_style := Suc (next_style h)\<rparr>)))"

text \<open>\<^verbatim>\<open>PageBox(document, page_number)\<close>.\<close>

definition PageBox_init :: "provider \<Rightarrow> heap \<Rightarrow> ref \<Rightarrow> int \<Rightarrow> error + ref \<times> heap" where
  "PageBox_init P h doc page_number =
     Box_init P h PageBox ((\<lambda>_. Unset)(''page_number'' := Val (IntVal page_number))) doc None"

text \<open>\<^verbatim>\<open>ParentBox.__init__\<close>, for the classes \<open>k\<close> that derive from \<^verbatim>\<open>ParentBox\<close>.\<close>

definition ParentBox_init ::
    "provider \<Rightarrow> heap \<Rightarrow> kind \<Rightarrow> ref \<Rightarrow> ref option \<Rightarrow> error + ref \<times> heap" where
  "ParentBox_init P h k doc el =
     (case Box_init P h k (\<lambda>_. Unset) doc el of
        Inl e \<Rightarrow> Inl e
      | Inr (r, h1) \<Rightarrow> Inr (r, empty h1 r))"

text \<open>\<^verbatim>\<open>TextBox(document, element, text)\<close>.\<close>

definition TextBox_init ::
    "provider \<Rightarrow> heap \<Rightarrow> ref \<Rightarrow> ref option \<Rightarrow> string \<Rightarrow> error + ref \<times> heap" where
  "TextBox_init P h doc el txt =
     (case Box_init P h TextBox (\<lambda>_. Unset) doc el of
        Inl e \<Rightarrow> Inl e
      | Inr (r, h1) \<Rightarrow>
          Inr (r, h1\<lparr>boxes := (boxes h1)(r := (boxes h1 r)
                 \<lparr>other_slots := (other_slots (boxes h1 r))(''text'' := Val (StrVal txt))\<rparr>)\<rparr>))"

text \<open>\<^verbatim>\<open>ReplacedBox.__init__\<close>, for the classes \<open>k\<close> that derive from
  \<^verbatim>\<open>ReplacedBox\<close>.\<close>

definition ReplacedBox_init ::
    "provider \<Rightarrow> heap \<Rightarrow> kind \<Rightarrow> ref \<Rightarrow> ref option \<Rightarrow> ref \<Rightarrow> error + ref \<times> heap" where
  "ReplacedBox_init P h k doc el replacement =
     (case Box_init P h k (\<lambda>_. Unset) doc el of
        Inl e \<Rightarrow> Inl e
      | Inr (r, h1) \<Rightarrow>
          Inr (r, h1\<lparr>boxes := (boxes h1)(r := (boxes h1 r)
                 \<lparr>other_slots := (other_slots (boxes h1 r))
                    (''replacement'' := Val (ObjRef replacement))\<rparr>)\<rparr>))"

section \<open>Notions used to state the properties\<close>

text \<open>An attribute is resolved when it holds a number.\<close>

fun resolved :: "num slot \<Rightarrow> bool" where
  "resolved (Val v) = True"
| "resolved _ = False"










text \<open>The Python sum \<^verbatim>\<open>a + x1 + ... + xn\<close>, evaluated from left to right.\<close>

fun py_sum :: "num \<Rightarrow> num list \<Rightarrow> error + num option" where
  "py_sum a [] = Inr (Some a)"
| "py_sum a (x # xs) = (case py_num_add a x of Inl e \<Rightarrow> Inl e | Inr c \<Rightarrow> py_sum c xs)"

text \<open>The sum \<^verbatim>\<open>q() + x1 + ... + xn\<close> that starts with the result of a query.\<close>

definition then_sum :: "error + num option \<Rightarrow> num list \<Rightarrow> error + num option" where
  "then_sum res xs =
     (case res of
        Inl e \<Rightarrow> Inl e
      | Inr None \<Rightarrow> (if xs = [] then Inr None else Inl TypeError)
      | Inr (Some a) \<Rightarrow> py_sum a xs)"

text \<open>\<^verbatim>\<open>a - b\<close> on numbers: exact on integers; on floats the sum of \<open>a\<close> and of \<open>b\<close>
  negated, rounded.\<close>

fun double_neg :: "double \<Rightarrow> double" where
  "double_neg (Finite m e) = Finite (- m) e"
| "double_neg PosInf = NegInf"
| "double_neg NegInf = PosInf"
| "double_neg NaN = NaN"

fun py_num_sub :: "num \<Rightarrow> num \<Rightarrow> error + num" where
  "py_num_sub (PyInt a) (PyInt b) = Inr (PyInt (a - b))"
| "py_num_sub (PyFloat a) (PyFloat b) = Inr (PyFloat (double_add a (double_neg b)))"
| "py_num_sub (PyInt a) (PyFloat b) =
     (case float_of_int a of
        Inl e \<Rightarrow> Inl e
      | Inr fa \<Rightarrow> Inr (PyFloat (double_add fa (double_neg b))))"
| "py_num_sub (PyFloat a) (PyInt b) =
     (case float_of_int b of
        Inl e \<Rightarrow> Inl e
      | Inr fb \<Rightarrow> Inr (PyFloat (double_add a (double_neg fb))))"

text \<open>
  A tree of references, and what it means that the store holds this tree below its
  root: a box of a \<^verbatim>\<open>ParentBox\<close> class has a deque whose elements are the roots of
  the subtrees, in order; any other box has no subtree.
\<close>

datatype tree = Node ref "tree list"

fun root :: "tree \<Rightarrow> ref" where
  "root (Node r ts) = r"

fun preorder :: "tree \<Rightarrow> ref list" where
  "preorder (Node r ts) = r # concat (map preorder ts)"

fun maxs :: "nat list \<Rightarrow> nat" where
  "maxs [] = 0"
| "maxs (n # ns) = max n (maxs ns)"

fun depth :: "tree \<Rightarrow> nat" where
  "depth (Node r ts) = Suc (maxs (map depth ts))"

fun shape :: "heap \<Rightarrow> tree \<Rightarrow> bool" where
  "shape h (Node r ts) =
     (if is_ParentBox (kind (boxes h r)) then
        (case children (boxes h r) of
           Val d \<Rightarrow> deques h d = map root ts \<and> (\<forall>t \<in> set ts. shape h t)
         | _ \<Rightarrow> False)
      else ts = [])"

text \<open>The two additions of \<^verbatim>\<open>Box.translate\<close> do not raise on this box.\<close>

definition translatable :: "box \<Rightarrow> num \<Rightarrow> num \<Rightarrow> bool" where
  "translatable b x y = (case Box_translate b x y of Inl e \<Rightarrow> False | Inr b' \<Rightarrow> True)"

text \<open>The box after \<^verbatim>\<open>Box.translate\<close>, when it does not raise.\<close>

definition translated :: "box \<Rightarrow> num \<Rightarrow> num \<Rightarrow> box" where
  "translated b x y = (case Box_translate b x y of Inl e \<Rightarrow> b | Inr b' \<Rightarrow> b')"

text \<open>The store in which the boxes of \<open>S\<close> have been translated once by \<open>(x, y)\<close>.\<close>

definition moved :: "ref set \<Rightarrow> num \<Rightarrow> num \<Rightarrow> heap \<Rightarrow> heap" where
  "moved S x y h =
     h\<lparr>boxes := (\<lambda>i. if i \<in> S then translated (boxes h i) x y else boxes h i)\<rparr>"

text \<open>Two calls of \<^verbatim>\<open>translate\<close> on the same box, one after the other.\<close>

definition translate_twice ::
    "nat \<Rightarrow> heap \<Rightarrow> ref \<Rightarrow> num \<Rightarrow> num \<Rightarrow> num \<Rightarrow> num \<Rightarrow> error + heap" where
  "translate_twice n h r x1 y1 x2 y2 =
     (case translate n h r x1 y1 of
        Inl e \<Rightarrow> Inl e
      | Inr h1 \<Rightarrow> translate n h1 r x2 y2)"

text \<open>The position of a box in the store a call returns.\<close>

definition position_after :: "error + heap \<Rightarrow> ref \<Rightarrow> error + num \<times> num" where
  "position_after res i =
     (case res of
        Inl e \<Rightarrow> Inl e
      | Inr h \<Rightarrow> Inr (position_x (boxes h i), position_y (boxes h i)))"

text \<open>A positioned box, and a box whose position keyword can be read and is not a
  positioned one.\<close>

definition is_positioned :: "keyword_reader \<Rightarrow> heap \<Rightarrow> ref \<Rightarrow> bool" where
  "is_positioned get_single_keyword h a =
     (case keyword_of get_single_keyword h a ''position'' of
        Inl e \<Rightarrow> False
      | Inr k \<Rightarrow> k = Some ''absolute'' \<or> k = Some ''relative'' \<or> k = Some ''fixed'')"

definition is_unpositioned :: "keyword_reader \<Rightarrow> heap \<Rightarrow> ref \<Rightarrow> bool" where
  "is_unpositioned get_single_keyword h a =
     (case keyword_of get_single_keyword h a ''position'' of
        Inl e \<Rightarrow> False
      | Inr k \<Rightarrow> \<not> (k = Some ''absolute'' \<or> k = Some ''relative'' \<or> k = Some ''fixed''))"

text \<open>All twelve margin, padding and border-width attributes are the integer zero.\<close>

definition spacing_is_zero :: "box \<Rightarrow> bool" where
  "spacing_is_zero b =
     (margin_top b = Val (PyInt 0) \<and> margin_right b = Val (PyInt 0)
      \<and> margin_bottom b = Val (PyInt 0) \<and> margin_left b = Val (PyInt 0)
      \<and> padding_top b = Val (PyInt 0) \<and> padding_right b = Val (PyInt 0)
      \<and> padding_bottom b = Val (PyInt 0) \<and> padding_left b = Val (PyInt 0)
      \<and> border_top_width b = Val (PyInt 0) \<and> border_right_width b = Val (PyInt 0)
      \<and> border_bottom_width b = Val (PyInt 0) \<and> border_left_width b = Val (PyInt 0))"

subsection \<open>Example stores\<close>

text \<open>A box as \<^verbatim>\<open>Box.__init__\<close> leaves it, with the given class, parent, style and
  children.\<close>

definition example_box :: "kind \<Rightarrow> ref option \<Rightarrow> ref \<Rightarrow> ref slot \<Rightarrow> box" where
  "example_box k p s c =
     \<lparr>kind = k, document = 0, element = Some 0, parent = p,
      width = PyNone, height = PyNone, position_x = PyInt 0, position_y = PyInt 0,
      style = s, children = c,
      padding_top = Unset, padding_right = Unset, padding_bottom = Unset,
      padding_left = Unset, border_top_width = Unset, border_right_width = Unset,
      border_bottom_width = Unset, border_left_width = Unset,
      margin_top = Unset, margin_right = Unset, margin_bottom = Unset,
      margin_left = Unset, outer_width = Unset, outer_height = Unset,
      other_slots = (\<lambda>_. Unset)\<rparr>"

text \<open>A box after layout with integer lengths: content 100 by 50, paddings 1 to 4,
  borders 5 to 8, margins 9 to 12 (top, right, bottom, left).\<close>

definition example_resolved_box :: box where
  "example_resolved_box =
     (example_box BlockBox None 0 (Val 0))
       \<lparr>width := Val (PyInt 100), height := Val (PyInt 50),
        padding_top := Val (PyInt 1), padding_right := Val (PyInt 2),
        padding_bottom := Val (PyInt 3), padding_left := Val (PyInt 4),
        border_top_width := Val (PyInt 5), border_right_width := Val (PyInt 6),
        border_bottom_width := Val (PyInt 7), border_left_width := Val (PyInt 8),
        margin_top := Val (PyInt 9), margin_right := Val (PyInt 10),
        margin_bottom := Val (PyInt 11), margin_left := Val (PyInt 12)\<rparr>"

text \<open>The floats \<open>0.0\<close>, \<open>1.0\<close>, \<open>2.0\<close>, \<open>2.0 ** 53\<close> (9007199254740992.0) and
  \<open>2.0 ** 53 + 2\<close>.\<close>

definition float_0 :: double where "float_0 = Finite 0 0"

definition float_1 :: double where "float_1 = Finite 4503599627370496 (- 52)"

definition float_2 :: double where "float_2 = Finite 4503599627370496 (- 51)"

definition float_2_53 :: double where "float_2_53 = Finite 4503599627370496 1"

definition float_2_53_plus_2 :: double where "float_2_53_plus_2 = Finite 4503599627370497 1"

text \<open>A box after layout with float lengths: width \<open>2.0 ** 53\<close>, height \<open>0.0\<close>, left and
  right paddings \<open>1.0\<close>, every other edge \<open>0.0\<close>.\<close>

definition example_float_box :: box where
  "example_float_box =
     (example_box BlockBox None 0 (Val 0))
       \<lparr>width := Val (PyFloat float_2_53), height := Val (PyFloat float_0),
        padding_top := Val (PyFloat float_0), padding_right := Val (PyFloat float_1),
        padding_bottom := Val (PyFloat float_0), padding_left := Val (PyFloat float_1),
        border_top_width := Val (PyFloat float_0), border_right_width := Val (PyFloat float_0),
        border_bottom_width := Val (PyFloat float_0),
        border_left_width := Val (PyFloat float_0),
        margin_top := Val (PyFloat float_0), margin_right := Val (PyFloat float_0),
        margin_bottom := Val (PyFloat float_0), margin_left := Val (PyFloat float_0)\<rparr>"

text \<open>
  A block box 0 with the children 1 (a line box, whose only child is the text box 3) and
  2 (a replaced box).
\<close>

definition example_tree_store :: heap where
  "example_tree_store =
     \<lparr>boxes = (\<lambda>_. example_box TextBox None 0 Unset)
        (0 := example_box BlockBox None 0 (Val 0),
         1 := example_box LineBox (Some 0) 1 (Val 1),
         2 := example_box BlockLevelReplacedBox (Some 0) 2 Unset,
         3 := example_box TextBox (Some 1) 3 Unset),
      styles = (\<lambda>_. Map.empty),
      deques = (\<lambda>_. [])(0 := [1, 2], 1 := [3]),
      next_box = 4, next_style = 4, next_deque = 2\<rparr>"

definition example_tree :: tree where
  "example_tree = Node 0 [Node 1 [Node 3 []], Node 2 []]"

text \<open>
  A block box 40 without children and a text box 41 without parent; the store after
  \<^verbatim>\<open>add_child\<close> of 41 to 40, and the store after a second \<^verbatim>\<open>add_child\<close> of 41 to 40.
\<close>

definition example_pair_store :: heap where
  "example_pair_store =
     \<lparr>boxes = (\<lambda>_. example_box TextBox None 0 Unset)
        (40 := example_box BlockBox None 40 (Val 40),
         41 := example_box TextBox None 41 Unset),
      styles = (\<lambda>_. Map.empty),
      deques = (\<lambda>_. []),
      next_box = 42, next_style = 42, next_deque = 41\<rparr>"

definition example_once_store :: heap where
  "example_once_store =
     example_pair_store
       \<lparr>boxes := (boxes example_pair_store)(41 := example_box TextBox (Some 40) 41 Unset),
        deques := (deques example_pair_store)(40 := [41])\<rparr>"

definition example_twice_store :: heap where
  "example_twice_store =
     example_pair_store
       \<lparr>boxes := (boxes example_pair_store)(41 := example_box TextBox (Some 40) 41 Unset),
        deques := (deques example_pair_store)(40 := [41, 41])\<rparr>"

text \<open>A block box 50 without children, at the float position \<open>(2.0 ** 53, 0.0)\<close>.\<close>

definition example_float_store :: heap where
  "example_float_store =
     \<lparr>boxes = (\<lambda>_. example_box TextBox None 0 Unset)
        (50 := (example_box BlockBox None 50 (Val 50))
                 \<lparr>position_x := PyFloat float_2_53, position_y := PyFloat float_0\<rparr>),
      styles = (\<lambda>_. Map.empty),
      deques = (\<lambda>_. []),
      next_box = 51, next_style = 51, next_deque = 51\<rparr>"

text \<open>A reader of keywords: the keyword of a value made of one token.\<close>

definition example_keyword_reader :: keyword_reader where
  "example_keyword_reader v =
     (case v of
        CssNone \<Rightarrow> Inl TypeError
      | CssTokens [k] \<Rightarrow> Inr (Some k)
      | CssTokens _ \<Rightarrow> Inr None)"

definition example_style :: "string \<Rightarrow> string \<Rightarrow> string \<Rightarrow> style_bag" where
  "example_style position display float =
     [''position'' \<mapsto> CssTokens [position], ''display'' \<mapsto> CssTokens [display],
      ''float'' \<mapsto> CssTokens [float]]"

text \<open>
  A page box 10 of outer size 595 by 842 and content size 555 by 802; below it the
  relatively positioned inline box 11 (200 by 400), below that the static block box 12
  (300 by 900), whose children are the absolutely positioned box 13, the static box 14
  and the fixed box 15. The static box 16 is also below the page, and its child 17 is
  absolutely positioned. The fixed box 18 has no parent.
\<close>

definition example_page_store :: heap where
  "example_page_store =
     \<lparr>boxes = (\<lambda>_. example_box TextBox None 0 Unset)
        (10 := (example_box PageBox None 10 Unset)
                \<lparr>width := Val (PyInt 555), height := Val (PyInt 802),
                 outer_width := Val (PyInt 595), outer_height := Val (PyInt 842)\<rparr>,
         11 := (example_box InlineBox (Some 10) 11 (Val 21))
                \<lparr>width := Val (PyInt 200), height := Val (PyInt 400)\<rparr>,
         12 := (example_box BlockBox (Some 11) 12 (Val 22))
                \<lparr>width := Val (PyInt 300), height := Val (PyInt 900)\<rparr>,
         13 := example_box BlockBox (Some 12) 13 (Val 23),
         14 := example_box BlockBox (Some 12) 14 (Val 24),
         15 := example_box BlockBox (Some 12) 15 (Val 25),
         16 := example_box BlockBox (Some 10) 16 (Val 26),
         17 := example_box BlockBox (Some 16) 17 (Val 27),
         18 := example_box BlockBox None 18 (Val 28)),
      styles = (\<lambda>_. Map.empty)
        (10 := example_style ''static'' ''block'' ''none'',
         11 := example_style ''relative'' ''inline'' ''none'',
         12 := example_style ''static'' ''block'' ''none'',
         13 := example_style ''absolute'' ''block'' ''none'',
         14 := example_style ''static'' ''block'' ''left'',
         15 := example_style ''fixed'' ''block'' ''none'',
         16 := example_style ''static'' ''block'' ''none'',
         17 := example_style ''absolute'' ''block'' ''none'',
         18 := example_style ''fixed'' ''block'' ''none''),
      deques = (\<lambda>_. [])(21 := [12], 22 := [13, 14, 15], 26 := [17]),
      next_box = 19, next_style = 19, next_deque = 29\<rparr>"


section \<open>Geometry\<close>

lemma add_attr_py_sum: "add_attr (py_sum a xs) (Val v) = py_sum a (xs @ [v])"
  by (induction xs arbitrary: a) (simp_all add: add_attr_def split: sum.splits)

lemma getattr_py_sum: "getattr (Val a) = py_sum a []"
  by simp

lemma then_sum_py_sum: "then_sum (py_sum a xs) ys = py_sum a (xs @ ys)"
proof (induction xs arbitrary: a)
  case Nil
  show ?case by (simp add: then_sum_def)
next
  case (Cons x xs)
  show ?case
  proof (cases "py_num_add a x")
    case (Inl e)
    then show ?thesis by (simp add: then_sum_def)
  next
    case (Inr c)
    with Cons [of c] show ?thesis by simp
  qed
qed

lemma py_sum_ints: "py_sum (PyInt a) (map PyInt xs) = Inr (Some (PyInt (a + sum_list xs)))"
  by (induction xs arbitrary: a) (simp_all add: add.assoc)

lemmas measurement_defs =
  padding_width_def border_width_def margin_width_def horizontal_surroundings_def
  padding_height_def border_height_def margin_height_def vertical_surroundings_def

lemma measurements_as_sums:
  assumes "width b = Val w" and "height b = Val ht"
    and "padding_top b = Val pt" and "padding_right b = Val pr"
    and "padding_bottom b = Val pb" and "padding_left b = Val pl"
    and "border_top_width b = Val bt" and "border_right_width b = Val br"
    and "border_bottom_width b = Val bb" and "border_left_width b = Val bl"
    and "margin_top b = Val mt" and "margin_right b = Val mr"
    and "margin_bottom b = Val mb" and "margin_left b = Val ml"
  shows "padding_width b = py_sum w [pl, pr]"
    and "border_width b = py_sum w [pl, pr, bl, br]"
    and "margin_width b = py_sum w [pl, pr, bl, br, ml, mr]"
    and "horizontal_surroundings b = py_sum ml [mr, pl, pr, bl, br]"
    and "padding_height b = py_sum ht [pt, pb]"
    and "border_height b = py_sum ht [pt, pb, bt, bb]"
    and "margin_height b = py_sum ht [pt, pb, bt, bb, mt, mb]"
    and "vertical_surroundings b = py_sum mt [mb, pt, pb, bt, bb]"
  using assms
  by (simp_all only: measurement_defs getattr_py_sum add_attr_py_sum append.simps)

text \<open>
  C1, as the code has it. Let the width, the height and the twelve margin, border-width
  and padding attributes of a box be numbers. Then the margin width is the sum, taken
  from left to right as Python does, of the border width and the two horizontal margins,
  which is the same sum as the padding width followed by the two horizontal border widths
  and the two margins, and as the width followed by the two paddings, the two border
  widths and the two margins; the horizontal surroundings are the left-to-right sum of
  the six edge values; and likewise for the heights. When all fourteen attributes are
  integers, every sum is exact: the eight measurements are integers, the margin width is
  the width plus the sum of the six horizontal edge values, the horizontal surroundings
  are the margin width minus the width, and likewise vertically. (On floats the sums are
  rounded at each step, and the last two identities can fail.)
\<close>

theorem geometry_identities:
  assumes "width b = Val w" and "height b = Val ht"
    and "padding_top b = Val pt" and "padding_right b = Val pr"
    and "padding_bottom b = Val pb" and "padding_left b = Val pl"
    and "border_top_width b = Val bt" and "border_right_width b = Val br"
    and "border_bottom_width b = Val bb" and "border_left_width b = Val bl"
    and "margin_top b = Val mt" and "margin_right b = Val mr"
    and "margin_bottom b = Val mb" and "margin_left b = Val ml"
  shows "margin_width b = then_sum (border_width b) [ml, mr]
    \<and> margin_width b = then_sum (padding_width b) [bl, br, ml, mr]
    \<and> margin_width b = py_sum w [pl, pr, bl, br, ml, mr]
    \<and> border_width b = then_sum (padding_width b) [bl, br]
    \<and> padding_width b = py_sum w [pl, pr]
    \<and> horizontal_surroundings b = py_sum ml [mr, pl, pr, bl, br]
    \<and> margin_height b = then_sum (border_height b) [mt, mb]
    \<and> margin_height b = then_sum (padding_height b) [bt, bb, mt, mb]
    \<and> margin_height b = py_sum ht [pt, pb, bt, bb, mt, mb]
    \<and> border_height b = then_sum (padding_height b) [bt, bb]
    \<and> padding_height b = py_sum ht [pt, pb]
    \<and> vertical_surroundings b = py_sum mt [mb, pt, pb, bt, bb]
    \<and> (w = PyInt wi \<and> ht = PyInt hi
         \<and> pt = PyInt pti \<and> pr = PyInt pri \<and> pb = PyInt pbi \<and> pl = PyInt pli
         \<and> bt = PyInt bti \<and> br = PyInt bri \<and> bb = PyInt bbi \<and> bl = PyInt bli
         \<and> mt = PyInt mti \<and> mr = PyInt mri \<and> mb = PyInt mbi \<and> ml = PyInt mli
        \<longrightarrow> (\<exists>pw bw mw hs ph bh mh vs.
              padding_width b = Inr (Some (PyInt pw)) \<and> border_width b = Inr (Some (PyInt bw))
            \<and> margin_width b = Inr (Some (PyInt mw))
            \<and> horizontal_surroundings b = Inr (Some (PyInt hs))
            \<and> mw = bw + mli + mri
            \<and> mw = pw + bli + bri + mli + mri
            \<and> mw = wi + (mli + mri + pli + pri + bli + bri)
            \<and> hs = mw - wi
            \<and> padding_height b = Inr (Some (PyInt ph)) \<and> border_height b = Inr (Some (PyInt bh))
            \<and> margin_height b = Inr (Some (PyInt mh))
            \<and> vertical_surroundings b = Inr (Some (PyInt vs))
            \<and> mh = bh + mti + mbi
            \<and> mh = ph + bti + bbi + mti + mbi
            \<and> mh = hi + (mti + mbi + pti + pbi + bti + bbi)
            \<and> vs = mh - hi))"
proof -
  note sums = measurements_as_sums [OF assms]
  have general: "margin_width b = then_sum (border_width b) [ml, mr]"
    "margin_width b = then_sum (padding_width b) [bl, br, ml, mr]"
    "border_width b = then_sum (padding_width b) [bl, br]"
    "margin_height b = then_sum (border_height b) [mt, mb]"
    "margin_height b = then_sum (padding_height b) [bt, bb, mt, mb]"
    "border_height b = then_sum (padding_height b) [bt, bb]"
    by (simp_all only: sums then_sum_py_sum append.simps)
  have ints: "\<exists>pw bw mw hs ph bh mh vs.
              padding_width b = Inr (Some (PyInt pw)) \<and> border_width b = Inr (Some (PyInt bw))
            \<and> margin_width b = Inr (Some (PyInt mw))
            \<and> horizontal_surroundings b = Inr (Some (PyInt hs))
            \<and> mw = bw + mli + mri
            \<and> mw = pw + bli + bri + mli + mri
            \<and> mw = wi + (mli + mri + pli + pri + bli + bri)
            \<and> hs = mw - wi
            \<and> padding_height b = Inr (Some (PyInt ph)) \<and> border_height b = Inr (Some (PyInt bh))
            \<and> margin_height b = Inr (Some (PyInt mh))
            \<and> vertical_surroundings b = Inr (Some (PyInt vs))
            \<and> mh = bh + mti + mbi
            \<and> mh = ph + bti + bbi + mti + mbi
            \<and> mh = hi + (mti + mbi + pti + pbi + bti + bbi)
            \<and> vs = mh - hi"
    if "w = PyInt wi \<and> ht = PyInt hi
         \<and> pt = PyInt pti \<and> pr = PyInt pri \<and> pb = PyInt pbi \<and> pl = PyInt pli
         \<and> bt = PyInt bti \<and> br = PyInt bri \<and> bb = PyInt bbi \<and> bl = PyInt bli
         \<and> mt = PyInt mti \<and> mr = PyInt mri \<and> mb = PyInt mbi \<and> ml = PyInt mli"
    using that by (simp add: sums)
  show ?thesis
    using sums general ints by blast
qed

theorem geometry_identities_witness:
  "margin_width example_resolved_box = Inr (Some (PyInt 142))
   \<and> border_width example_resolved_box = Inr (Some (PyInt 120))
   \<and> padding_width example_resolved_box = Inr (Some (PyInt 106))
   \<and> horizontal_surroundings example_resolved_box = Inr (Some (PyInt 42))
   \<and> margin_height example_resolved_box = Inr (Some (PyInt 86))
   \<and> border_height example_resolved_box = Inr (Some (PyInt 66))
   \<and> padding_height example_resolved_box = Inr (Some (PyInt 54))
   \<and> vertical_surroundings example_resolved_box = Inr (Some (PyInt 36))
   \<and> margin_width example_resolved_box
       = then_sum (border_width example_resolved_box) [PyInt 12, PyInt 10]"
proof -
  have fields: "width example_resolved_box = Val (PyInt 100)"
    "height example_resolved_box = Val (PyInt 50)"
    "padding_top example_resolved_box = Val (PyInt 1)"
    "padding_right example_resolved_box = Val (PyInt 2)"
    "padding_bottom example_resolved_box = Val (PyInt 3)"
    "padding_left example_resolved_box = Val (PyInt 4)"
    "border_top_width example_resolved_box = Val (PyInt 5)"
    "border_right_width example_resolved_box = Val (PyInt 6)"
    "border_bottom_width example_resolved_box = Val (PyInt 7)"
    "border_left_width example_resolved_box = Val (PyInt 8)"
    "margin_top example_resolved_box = Val (PyInt 9)"
    "margin_right example_resolved_box = Val (PyInt 10)"
    "margin_bottom example_resolved_box = Val (PyInt 11)"
    "margin_left example_resolved_box = Val (PyInt 12)"
    by (simp_all add: example_resolved_box_def example_box_def)
  note g = geometry_identities [OF fields, of 100 50 1 2 3 4 5 6 7 8 9 10 11 12]
  from g have s: "margin_width example_resolved_box
       = then_sum (border_width example_resolved_box) [PyInt 12, PyInt 10]"
    by blast
  from g obtain pw bw mw hs ph bh mh vs where
    r: "padding_width example_resolved_box = Inr (Some (PyInt pw))"
      "border_width example_resolved_box = Inr (Some (PyInt bw))"
      "margin_width example_resolved_box = Inr (Some (PyInt mw))"
      "horizontal_surroundings example_resolved_box = Inr (Some (PyInt hs))"
      "padding_height example_resolved_box = Inr (Some (PyInt ph))"
      "border_height example_resolved_box = Inr (Some (PyInt bh))"
      "margin_height example_resolved_box = Inr (Some (PyInt mh))"
      "vertical_surroundings example_resolved_box = Inr (Some (PyInt vs))"
    and e: "mw = bw + 12 + 10" "mw = pw + 8 + 6 + 12 + 10" "mw = 100 + (12 + 10 + 4 + 2 + 8 + 6)"
      "hs = mw - 100" "mh = bh + 9 + 11" "mh = ph + 5 + 7 + 9 + 11"
      "mh = 50 + (9 + 11 + 1 + 3 + 5 + 7)" "vs = mh - 50"
    by blast
  from e have "mw = 142" "bw = 120" "pw = 106" "hs = 42" "mh = 86" "bh = 66" "ph = 54" "vs = 36"
    by simp_all
  with r s show ?thesis by simp
qed

lemmas double_defs =
  round_double_def round_half_even_def float_of_int_def double_exponent_def
  significand_at_def pack_double_def

lemma example_float_sums:
  "double_add float_2_53 float_1 = float_2_53"
  "double_add float_2_53 float_0 = float_2_53"
  "double_add float_0 float_0 = float_0"
  "double_add float_0 float_1 = float_1"
  "double_add float_1 float_1 = float_2"
  "double_add float_2 float_0 = float_2"
  "double_add float_2_53 float_2 = float_2_53_plus_2"
  "double_add float_2_53 (double_neg float_2_53) = float_0"
  by (simp_all add: float_0_def float_1_def float_2_def float_2_53_def float_2_53_plus_2_def
      double_defs)

text \<open>
  The float box of the example has the width \<open>2.0 ** 53\<close> and the paddings \<open>1.0\<close>: its
  margin width is \<open>2.0 ** 53\<close>, since \<open>2.0 ** 53 + 1.0\<close> is rounded to \<open>2.0 ** 53\<close>, and
  its horizontal surroundings are \<open>2.0\<close>. So the margin width is not the width plus the
  sum of the six edge values, which is \<open>2.0 ** 53 + 2\<close>, and the horizontal surroundings
  are not the margin width minus the width, which is \<open>0.0\<close>.
\<close>

theorem geometry_float_counterexample:
  "width example_float_box = Val (PyFloat float_2_53)
   \<and> margin_width example_float_box = Inr (Some (PyFloat float_2_53))
   \<and> horizontal_surroundings example_float_box = Inr (Some (PyFloat float_2))
   \<and> py_num_add (PyFloat float_2_53) (PyFloat float_2) = Inr (PyFloat float_2_53_plus_2)
   \<and> PyFloat float_2_53 \<noteq> PyFloat float_2_53_plus_2
   \<and> py_num_sub (PyFloat float_2_53) (PyFloat float_2_53) = Inr (PyFloat float_0)
   \<and> PyFloat float_2 \<noteq> PyFloat float_0"
proof -
  have "margin_width example_float_box = Inr (Some (PyFloat float_2_53))"
    "horizontal_surroundings example_float_box = Inr (Some (PyFloat float_2))"
    by (simp_all add: example_float_box_def example_box_def measurement_defs add_attr_def
        example_float_sums)
  moreover have "PyFloat float_2_53 \<noteq> PyFloat float_2_53_plus_2"
    "PyFloat float_2 \<noteq> PyFloat float_0"
    by (simp_all add: float_0_def float_2_def float_2_53_def float_2_53_plus_2_def)
  ultimately show ?thesis
    by (simp add: example_float_sums) (simp add: example_float_box_def example_box_def)
qed

subsection \<open>Failure of the queries on unresolved attributes\<close>




lemma resolved_iff: "resolved s \<longleftrightarrow> (\<exists>x. s = Val x)"
  by (cases s) auto




















text \<open>
  The third failure does happen: in a box of width \<open>2.0 ** 53\<close> whose left padding is the
  integer \<open>2 ** 1024\<close> and whose right padding is not set, \<^verbatim>\<open>padding_width\<close> raises
  \<^verbatim>\<open>OverflowError\<close> at its first addition.
\<close>

lemma bit_length_double: "0 < n \<Longrightarrow> bit_length (2 * n) = Suc (bit_length n)"
  by (subst bit_length.simps) simp

lemma bit_length_power: "bit_length (2 ^ n) = Suc n"
proof (induction n)
  case 0
  show ?case by (subst bit_length.simps) simp
next
  case (Suc n)
  then show ?case by (simp add: bit_length_double del: bit_length.simps)
qed

lemma float_of_large_int: "float_of_int (2 ^ 1024) = Inl OverflowError"
proof -
  have b: "bit_length (nat \<bar>2 ^ 1024\<bar>) = 1025"
    using bit_length_power [of 1024] by (simp add: nat_power_eq del: bit_length.simps)
  have m: "(2::int) ^ 1024 mod 2 ^ 972 = 0" "(2::int) ^ 1024 div 2 ^ 972 = 2 ^ 52"
    by (simp_all add: power_diff [symmetric] mod_eq_0_iff_dvd le_imp_power_dvd)
  show ?thesis
    unfolding float_of_int_def round_double_def double_exponent_def b significand_at_def
      round_half_even_def pack_double_def
    by (simp add: m del: bit_length.simps)
qed

lemma overflow_before_unresolved:
  "\<not> resolved (padding_right
        (example_float_box\<lparr>padding_left := Val (PyInt (2 ^ 1024)), padding_right := Unset\<rparr>))
   \<and> padding_width
        (example_float_box\<lparr>padding_left := Val (PyInt (2 ^ 1024)), padding_right := Unset\<rparr>)
       = Inl OverflowError"
  using float_of_large_int
  by (simp add: padding_width_def add_attr_def example_float_box_def example_box_def
      del: bit_length.simps)














































section \<open>Positioning schemes\<close>

text \<open>
  C10. A box is absolutely positioned exactly when its position keyword is
  \<^verbatim>\<open>absolute\<close> or \<^verbatim>\<open>fixed\<close>; it is floated exactly when its float keyword is not
  \<^verbatim>\<open>none\<close>; and it is in normal flow exactly when it is neither floated nor absolutely
  positioned.
\<close>

theorem positioning_predicates:
  "(keyword_of g h r ''position'' = Inr k
      \<longrightarrow> is_absolutely_positioned g h r = Inr (k = Some ''absolute'' \<or> k = Some ''fixed''))
 \<and> (keyword_of g h r ''float'' = Inr k'
      \<longrightarrow> is_floated g h r = Inr (k' \<noteq> Some ''none''))
 \<and> (is_in_normal_flow g h r = Inr True
      \<longleftrightarrow> is_floated g h r = Inr False \<and> is_absolutely_positioned g h r = Inr False)
 \<and> (is_floated g h r = Inr f \<and> is_absolutely_positioned g h r = Inr a
      \<longrightarrow> is_in_normal_flow g h r = Inr (\<not> (f \<or> a)))"
  by (auto simp: is_absolutely_positioned_def is_floated_def is_in_normal_flow_def
      split: sum.splits bool.splits)

lemma example_page_store_keywords:
  "keyword_of example_keyword_reader example_page_store 10 ''position'' = Inr (Some ''static'')"
  "keyword_of example_keyword_reader example_page_store 11 ''position'' = Inr (Some ''relative'')"
  "keyword_of example_keyword_reader example_page_store 12 ''position'' = Inr (Some ''static'')"
  "keyword_of example_keyword_reader example_page_store 13 ''position'' = Inr (Some ''absolute'')"
  "keyword_of example_keyword_reader example_page_store 14 ''position'' = Inr (Some ''static'')"
  "keyword_of example_keyword_reader example_page_store 15 ''position'' = Inr (Some ''fixed'')"
  "keyword_of example_keyword_reader example_page_store 16 ''position'' = Inr (Some ''static'')"
  "keyword_of example_keyword_reader example_page_store 17 ''position'' = Inr (Some ''absolute'')"
  "keyword_of example_keyword_reader example_page_store 18 ''position'' = Inr (Some ''fixed'')"
  "keyword_of example_keyword_reader example_page_store 11 ''display'' = Inr (Some ''inline'')"
  "keyword_of example_keyword_reader example_page_store 12 ''float'' = Inr (Some ''none'')"
  "keyword_of example_keyword_reader example_page_store 13 ''float'' = Inr (Some ''none'')"
  "keyword_of example_keyword_reader example_page_store 14 ''float'' = Inr (Some ''left'')"
  by (simp_all add: keyword_of_def example_page_store_def example_box_def example_style_def
      example_keyword_reader_def)

theorem positioning_predicates_witness:
  "is_absolutely_positioned example_keyword_reader example_page_store 13 = Inr True
   \<and> is_floated example_keyword_reader example_page_store 13 = Inr False
   \<and> is_in_normal_flow example_keyword_reader example_page_store 13 = Inr False
   \<and> is_absolutely_positioned example_keyword_reader example_page_store 14 = Inr False
   \<and> is_floated example_keyword_reader example_page_store 14 = Inr True
   \<and> is_in_normal_flow example_keyword_reader example_page_store 14 = Inr False
   \<and> is_absolutely_positioned example_keyword_reader example_page_store 12 = Inr False
   \<and> is_floated example_keyword_reader example_page_store 12 = Inr False
   \<and> is_in_normal_flow example_keyword_reader example_page_store 12 = Inr True"
  using
    positioning_predicates [of example_keyword_reader example_page_store 13
      "Some ''absolute''" "Some ''none''" False True]
    positioning_predicates [of example_keyword_reader example_page_store 14
      "Some ''static''" "Some ''left''" True False]
    positioning_predicates [of example_keyword_reader example_page_store 12
      "Some ''static''" "Some ''none''" False False]
  by (simp add: example_page_store_keywords)

section \<open>Resetting the spacing of a side\<close>

text \<open>
  C9. For each of the four sides, \<^verbatim>\<open>reset_spacing\<close> returns the store in which the
  margin, the padding and the border width of that side of the box are zero and the three
  entries of that side in the style bag of the box are \<^verbatim>\<open>None\<close>; every other attribute
  of the box, every other entry of its style bag and every other object are as before.
\<close>

theorem reset_spacing_side:
  "reset_spacing h r ''top'' = Inr (h\<lparr>
      boxes := (boxes h)(r := (boxes h r)
        \<lparr>margin_top := Val (PyInt 0), padding_top := Val (PyInt 0), border_top_width := Val (PyInt 0)\<rparr>),
      styles := (styles h)(style (boxes h r) := (styles h (style (boxes h r)))
        (''margin-top'' \<mapsto> CssNone, ''padding-top'' \<mapsto> CssNone,
         ''border-top-width'' \<mapsto> CssNone))\<rparr>)
 \<and> reset_spacing h r ''right'' = Inr (h\<lparr>
      boxes := (boxes h)(r := (boxes h r)
        \<lparr>margin_right := Val (PyInt 0), padding_right := Val (PyInt 0), border_right_width := Val (PyInt 0)\<rparr>),
      styles := (styles h)(style (boxes h r) := (styles h (style (boxes h r)))
        (''margin-right'' \<mapsto> CssNone, ''padding-right'' \<mapsto> CssNone,
         ''border-right-width'' \<mapsto> CssNone))\<rparr>)
 \<and> reset_spacing h r ''bottom'' = Inr (h\<lparr>
      boxes := (boxes h)(r := (boxes h r)
        \<lparr>margin_bottom := Val (PyInt 0), padding_bottom := Val (PyInt 0), border_bottom_width := Val (PyInt 0)\<rparr>),
      styles := (styles h)(style (boxes h r) := (styles h (style (boxes h r)))
        (''margin-bottom'' \<mapsto> CssNone, ''padding-bottom'' \<mapsto> CssNone,
         ''border-bottom-width'' \<mapsto> CssNone))\<rparr>)
 \<and> reset_spacing h r ''left'' = Inr (h\<lparr>
      boxes := (boxes h)(r := (boxes h r)
        \<lparr>margin_left := Val (PyInt 0), padding_left := Val (PyInt 0), border_left_width := Val (PyInt 0)\<rparr>),
      styles := (styles h)(style (boxes h r) := (styles h (style (boxes h r)))
        (''margin-left'' \<mapsto> CssNone, ''padding-left'' \<mapsto> CssNone,
         ''border-left-width'' \<mapsto> CssNone))\<rparr>)"
  by (simp add: reset_spacing_def setattr_edge_def)

lemma reset_spacing_other_styles:
  "reset_spacing h r side = Inr h' \<Longrightarrow> j \<noteq> style (boxes h r) \<Longrightarrow> styles h' j = styles h j"
  by (auto simp: reset_spacing_def setattr_edge_def split: sum.splits if_splits)

section \<open>Copying\<close>

text \<open>
  C6. The copy of a live box whose style bag is live is a new box of the same class;
  all its attributes are those of the original, the style reference apart, so that it
  shares the deque of children and the parent with the original; its style bag is a new
  object with the entries of the original's; the original and its style bag are
  unchanged; and whatever is then written into the style bag of the copy (by
  \<^verbatim>\<open>reset_spacing\<close> on the copy, for example) leaves the style bag of the original as
  it was.
\<close>

theorem copy_shallow:
  assumes "r < next_box h" and "style (boxes h r) < next_style h"
  shows "\<exists>r' h'. copy h r = (r', h')
     \<and> r' \<noteq> r
     \<and> kind (boxes h' r') = kind (boxes h r)
     \<and> (boxes h' r')\<lparr>style := style (boxes h r)\<rparr> = boxes h r
     \<and> children (boxes h' r') = children (boxes h r)
     \<and> parent (boxes h' r') = parent (boxes h r)
     \<and> deques h' = deques h
     \<and> style (boxes h' r') \<noteq> style (boxes h r)
     \<and> styles h' (style (boxes h' r')) = styles h (style (boxes h r))
     \<and> boxes h' r = boxes h r
     \<and> styles h' (style (boxes h r)) = styles h (style (boxes h r))
     \<and> (\<forall>s. styles (h'\<lparr>styles := (styles h')(style (boxes h' r') := s)\<rparr>) (style (boxes h r))
              = styles h (style (boxes h r)))
     \<and> (\<forall>side h''. reset_spacing h' r' side = Inr h''
              \<longrightarrow> styles h'' (style (boxes h r)) = styles h (style (boxes h r)))"
proof -
  obtain r' h' where c: "copy h r = (r', h')" by (cases "copy h r")
  from c assms have r': "r' \<noteq> r" by (auto simp: copy_def Let_def)
  from c assms have s: "style (boxes h' r') \<noteq> style (boxes h r)"
    by (auto simp: copy_def Let_def)
  from c r' have orig: "boxes h' r = boxes h r" by (auto simp: copy_def Let_def)
  from c assms have sorig: "styles h' (style (boxes h r)) = styles h (style (boxes h r))"
    by (auto simp: copy_def Let_def)
  have rs: "styles h'' (style (boxes h r)) = styles h (style (boxes h r))"
    if "reset_spacing h' r' side = Inr h''" for side h''
    using reset_spacing_other_styles [OF that, of "style (boxes h r)"] s sorig by simp
  from c have rest: "kind (boxes h' r') = kind (boxes h r)"
     "(boxes h' r')\<lparr>style := style (boxes h r)\<rparr> = boxes h r"
     "children (boxes h' r') = children (boxes h r)"
     "parent (boxes h' r') = parent (boxes h r)"
     "deques h' = deques h"
     "styles h' (style (boxes h' r')) = styles h (style (boxes h r))"
    by (auto simp: copy_def Let_def)
  from s sorig have upd:
    "\<forall>s. styles (h'\<lparr>styles := (styles h')(style (boxes h' r') := s)\<rparr>) (style (boxes h r))
              = styles h (style (boxes h r))"
    by simp
  show ?thesis
    using c r' s orig sorig rs rest upd by blast
qed

theorem copy_shallow_witness:
  "(11::nat) < next_box example_page_store
   \<and> style (boxes example_page_store 11) < next_style example_page_store
   \<and> fst (copy example_page_store 11) = 19
   \<and> kind (boxes (snd (copy example_page_store 11)) 19) = InlineBox
   \<and> children (boxes (snd (copy example_page_store 11)) 19) = Val 21
   \<and> parent (boxes (snd (copy example_page_store 11)) 19) = Some 10
   \<and> style (boxes (snd (copy example_page_store 11)) 19) = 19
   \<and> style (boxes (snd (copy example_page_store 11)) 11) = 11
   \<and> styles (snd (copy example_page_store 11)) 19 = styles example_page_store 11
   \<and> (\<exists>r' h'. copy example_page_store 11 = (r', h') \<and> r' \<noteq> 11
         \<and> style (boxes h' r') \<noteq> style (boxes example_page_store 11))"
proof -
  have live: "(11::nat) < next_box example_page_store"
    "style (boxes example_page_store 11) < next_style example_page_store"
    by (simp_all add: example_page_store_def example_box_def)
  have copied: "fst (copy example_page_store 11) = 19"
    "kind (boxes (snd (copy example_page_store 11)) 19) = InlineBox"
    "children (boxes (snd (copy example_page_store 11)) 19) = Val 21"
    "parent (boxes (snd (copy example_page_store 11)) 19) = Some 10"
    "style (boxes (snd (copy example_page_store 11)) 19) = 19"
    "style (boxes (snd (copy example_page_store 11)) 11) = 11"
    "styles (snd (copy example_page_store 11)) 19 = styles example_page_store 11"
    by (simp_all add: copy_def Let_def example_page_store_def example_box_def)
  from copy_shallow [OF live]
  have "\<exists>r' h'. copy example_page_store 11 = (r', h') \<and> r' \<noteq> 11
         \<and> style (boxes h' r') \<noteq> style (boxes example_page_store 11)"
    by blast
  with live copied show ?thesis by simp
qed

section \<open>Construction of anonymous boxes\<close>

text \<open>
  C8. Whatever the style provider returns, each of the four anonymous classes
  (\<^verbatim>\<open>AnonymousBlockBox\<close>, \<^verbatim>\<open>LineBox\<close>, \<^verbatim>\<open>TextBox\<close>, \<^verbatim>\<open>ImageMarkerBox\<close>) constructs
  a box whose four margins, four paddings and four border widths are zero.
\<close>

theorem anonymous_boxes_start_without_spacing:
  "(\<exists>r h'. ParentBox_init P h AnonymousBlockBox doc el = Inr (r, h')
        \<and> kind (boxes h' r) = AnonymousBlockBox \<and> spacing_is_zero (boxes h' r))
 \<and> (\<exists>r h'. ParentBox_init P h LineBox doc el = Inr (r, h')
        \<and> kind (boxes h' r) = LineBox \<and> spacing_is_zero (boxes h' r))
 \<and> (\<exists>r h'. TextBox_init P h doc el txt = Inr (r, h')
        \<and> kind (boxes h' r) = TextBox \<and> spacing_is_zero (boxes h' r))
 \<and> (\<exists>r h'. ReplacedBox_init P h ImageMarkerBox doc el replacement = Inr (r, h')
        \<and> kind (boxes h' r) = ImageMarkerBox \<and> spacing_is_zero (boxes h' r))"
  by (simp add: ParentBox_init_def TextBox_init_def ReplacedBox_init_def Box_init_def
      init_style_bag_def zero_spacing_def spacing_is_zero_def empty_def)

section \<open>Translation\<close>

lemma Box_translate_Inr:
  "Box_translate b x y = Inr b' \<Longrightarrow>
     py_num_add (position_x b) x = Inr (position_x b')
     \<and> py_num_add (position_y b) y = Inr (position_y b')
     \<and> b'\<lparr>position_x := position_x b, position_y := position_y b\<rparr> = b"
  by (auto simp: Box_translate_def split: sum.splits)

lemma Box_translate_fields:
  "Box_translate b x y = Inr b' \<Longrightarrow> kind b' = kind b \<and> children b' = children b"
  by (auto simp: Box_translate_def split: sum.splits)

lemma translatable_iff: "translatable b x y \<longleftrightarrow> Box_translate b x y = Inr (translated b x y)"
  by (simp add: translatable_def translated_def split: sum.splits)

lemma translated_fields:
  "kind (translated b x y) = kind b"
  "children (translated b x y) = children b"
  by (auto simp: translated_def dest: Box_translate_fields split: sum.splits)

lemma translated_ints:
  "position_x b = PyInt p \<Longrightarrow> position_y b = PyInt q \<Longrightarrow>
     Box_translate b (PyInt x) (PyInt y) = Inr (b\<lparr>position_x := PyInt (p + x), position_y := PyInt (q + y)\<rparr>)"
  by (simp add: Box_translate_def)

lemma moved_fields:
  "boxes (moved S x y h) i = (if i \<in> S then translated (boxes h i) x y else boxes h i)"
  "deques (moved S x y h) = deques h"
  "styles (moved S x y h) = styles h"
  by (simp_all add: moved_def)

lemma moved_empty: "moved {} x y h = h"
  by (simp add: moved_def)

lemma moved_union: "S \<inter> T = {} \<Longrightarrow> moved T x y (moved S x y h) = moved (S \<union> T) x y h"
  by (rule heap.equality) (auto simp: moved_def fun_eq_iff)

lemma moved_single:
  "Box_translate (boxes h r) x y = Inr b \<Longrightarrow> h\<lparr>boxes := (boxes h)(r := b)\<rparr> = moved {r} x y h"
  by (rule heap.equality) (auto simp: moved_def fun_eq_iff translated_def)

text \<open>Translating boxes changes neither their classes nor the deques.\<close>

lemma shape_moved: "shape (moved S x y h) t = shape h t"
proof (induction t)
  case (Node r ts)
  then show ?case
    by (cases "children (boxes h r)") (simp_all add: moved_fields translated_fields)
qed

lemma depth_child: "t \<in> set ts \<Longrightarrow> depth t \<le> maxs (map depth ts)"
  by (induction ts) auto

lemma translate_children:
  assumes "\<And>t h'. t \<in> set ts \<Longrightarrow> shape h' t \<Longrightarrow> distinct (preorder t) \<Longrightarrow>
             \<forall>i \<in> set (preorder t). translatable (boxes h' i) x y \<Longrightarrow>
             translate n h' (root t) x y = Inr (moved (set (preorder t)) x y h')"
    and "\<forall>t \<in> set ts. shape h t"
    and "distinct (concat (map preorder ts))"
    and "\<forall>i \<in> set (concat (map preorder ts)). translatable (boxes h i) x y"
  shows "for_each (\<lambda>child h'. translate n h' child x y) (map root ts) h
           = Inr (moved (set (concat (map preorder ts))) x y h)"
  using assms
proof (induction ts arbitrary: h)
  case Nil
  then show ?case by (simp add: moved_empty)
next
  case (Cons t ts)
  let ?S = "set (preorder t)" and ?T = "set (concat (map preorder ts))"
  from Cons.prems(3) have d: "distinct (preorder t)" "distinct (concat (map preorder ts))"
    "?S \<inter> ?T = {}"
    by simp_all
  have first: "translate n h (root t) x y = Inr (moved ?S x y h)"
    using Cons.prems(1) [of t h] Cons.prems(2,4) d(1) by simp
  have same: "boxes (moved ?S x y h) i = boxes h i" if "i \<in> ?T" for i
    using that d(3) by (auto simp: moved_fields)
  have rest: "for_each (\<lambda>child h'. translate n h' child x y) (map root ts) (moved ?S x y h)
                = Inr (moved ?T x y (moved ?S x y h))"
  proof (rule Cons.IH)
    show "translate n h' (root u) x y = Inr (moved (set (preorder u)) x y h')"
      if "u \<in> set ts" "shape h' u" "distinct (preorder u)"
        "\<forall>i \<in> set (preorder u). translatable (boxes h' i) x y" for u h'
      using that Cons.prems(1) [of u h'] by simp
    show "\<forall>u \<in> set ts. shape (moved ?S x y h) u"
      using Cons.prems(2) by (simp add: shape_moved)
    show "distinct (concat (map preorder ts))" by (rule d(2))
    show "\<forall>i \<in> ?T. translatable (boxes (moved ?S x y h) i) x y"
      using Cons.prems(4) same by simp
  qed
  show ?case
    using first rest d(3) by (simp add: moved_union)
qed

text \<open>
  On a store that holds the tree \<open>t\<close>, in which no box occurs twice, with a call stack
  deep enough for it and additions that do not raise, the call returns the store in
  which each box of the tree has been translated once.
\<close>

lemma translate_moved:
  "shape h t \<Longrightarrow> distinct (preorder t) \<Longrightarrow> depth t \<le> n \<Longrightarrow>
   \<forall>i \<in> set (preorder t). translatable (boxes h i) x y \<Longrightarrow>
     translate n h (root t) x y = Inr (moved (set (preorder t)) x y h)"
proof (induction t arbitrary: n h)
  case (Node r ts)
  from Node.prems(3) obtain m where n: "n = Suc m" and m: "maxs (map depth ts) \<le> m"
    by (cases n) auto
  let ?T = "set (concat (map preorder ts))"
  from Node.prems(2) have d: "r \<notin> ?T" "distinct (concat (map preorder ts))"
    by simp_all
  from Node.prems(4) have "translatable (boxes h r) x y" by simp
  then have b: "Box_translate (boxes h r) x y = Inr (translated (boxes h r) x y)"
    by (simp add: translatable_iff)
  let ?h1 = "moved {r} x y h"
  have h1: "h\<lparr>boxes := (boxes h)(r := translated (boxes h r) x y)\<rparr> = ?h1"
    using b by (rule moved_single)
  show ?case
  proof (cases "is_ParentBox (kind (boxes h r))")
    case False
    with Node.prems(1) have "ts = []" by simp
    with False b h1 show ?thesis
      by (simp add: n translated_fields)
  next
    case True
    with Node.prems(1) obtain c where c: "children (boxes h r) = Val c"
      and cs: "deques h c = map root ts" and sub: "\<forall>t \<in> set ts. shape h t"
      by (auto split: slot.splits)
    have same: "boxes ?h1 i = boxes h i" if "i \<in> ?T" for i
      using that d(1) by (auto simp: moved_fields)
    have "for_each (\<lambda>child h'. translate m h' child x y) (map root ts) ?h1
            = Inr (moved ?T x y ?h1)"
    proof (rule translate_children)
      show "translate m h' (root u) x y = Inr (moved (set (preorder u)) x y h')"
        if "u \<in> set ts" "shape h' u" "distinct (preorder u)"
          "\<forall>i \<in> set (preorder u). translatable (boxes h' i) x y" for u h'
        using that Node.IH [of u h' m] depth_child [of u ts] m by simp
      show "\<forall>u \<in> set ts. shape ?h1 u"
        using sub by (simp add: shape_moved)
      show "distinct (concat (map preorder ts))" by (rule d(2))
      show "\<forall>i \<in> ?T. translatable (boxes ?h1 i) x y"
        using Node.prems(4) same by simp
    qed
    moreover have "moved ?T x y ?h1 = moved (set (preorder (Node r ts))) x y h"
      using d(1) by (simp add: moved_union)
    ultimately show ?thesis
      using True b c cs h1
      by (simp add: n translated_fields moved_fields)
  qed
qed

lemma translatable_ints:
  "position_x b = PyInt p \<Longrightarrow> position_y b = PyInt q \<Longrightarrow> translatable b (PyInt x) (PyInt y)"
  by (simp add: translatable_def translated_ints)

lemma moved_ints_twice:
  assumes "\<forall>i \<in> S. \<exists>p q. position_x (boxes h i) = PyInt p \<and> position_y (boxes h i) = PyInt q"
  shows "moved S (PyInt x2) (PyInt y2) (moved S (PyInt x1) (PyInt y1) h)
           = moved S (PyInt (x1 + x2)) (PyInt (y1 + y2)) h"
proof -
  have "translated (translated (boxes h i) (PyInt x1) (PyInt y1)) (PyInt x2) (PyInt y2)
          = translated (boxes h i) (PyInt (x1 + x2)) (PyInt (y1 + y2))" if "i \<in> S" for i
  proof -
    from assms that obtain p q where
      "position_x (boxes h i) = PyInt p" "position_y (boxes h i) = PyInt q"
      by blast
    then show ?thesis
      by (simp add: translated_def translated_ints add.assoc)
  qed
  then show ?thesis
    by (intro heap.equality) (auto simp: moved_def fun_eq_iff)
qed

text \<open>
  C4, as the code has it. Let the store hold a tree below a container box, in which no
  box occurs twice (every box has one parent and occurs once among its children), let the
  call stack be deep enough for the tree, and let no addition raise. Then
  \<^verbatim>\<open>translate(box, dx, dy)\<close> returns; in the new store the box and each of its
  descendants have the position \<^verbatim>\<open>position_x + dx\<close>, \<^verbatim>\<open>position_y + dy\<close> (Python's
  sum: exact on integers, rounded on floats) and are otherwise as before, and all other
  objects are unchanged. When moreover the positions and the offsets are integers,
  translating by \<open>(dx1, dy1)\<close> and then by \<open>(dx2, dy2)\<close> gives the store that one
  translation by \<open>(dx1 + dx2, dy1 + dy2)\<close> gives.
\<close>

theorem translate_container:
  assumes "shape h t" and "is_ParentBox (kind (boxes h (root t)))"
    and "distinct (preorder t)" and "depth t \<le> n"
  shows "((\<forall>i \<in> set (preorder t). translatable (boxes h i) dx dy) \<longrightarrow>
          (\<exists>h'. translate n h (root t) dx dy = Inr h'
             \<and> (\<forall>i \<in> set (preorder t).
                   py_num_add (position_x (boxes h i)) dx = Inr (position_x (boxes h' i))
                 \<and> py_num_add (position_y (boxes h i)) dy = Inr (position_y (boxes h' i))
                 \<and> (boxes h' i)\<lparr>position_x := position_x (boxes h i),
                                 position_y := position_y (boxes h i)\<rparr> = boxes h i)
             \<and> (\<forall>i. i \<notin> set (preorder t) \<longrightarrow> boxes h' i = boxes h i)
             \<and> h'\<lparr>boxes := boxes h\<rparr> = h))
     \<and> ((\<forall>i \<in> set (preorder t).
            \<exists>p q. position_x (boxes h i) = PyInt p \<and> position_y (boxes h i) = PyInt q) \<longrightarrow>
          (\<exists>h2. translate_twice n h (root t) (PyInt a1) (PyInt b1) (PyInt a2) (PyInt b2) = Inr h2
             \<and> translate n h (root t) (PyInt (a1 + a2)) (PyInt (b1 + b2)) = Inr h2))"
proof (intro conjI impI)
  let ?S = "set (preorder t)"
  assume ok: "\<forall>i \<in> ?S. translatable (boxes h i) dx dy"
  let ?h' = "moved ?S dx dy h"
  have "translate n h (root t) dx dy = Inr ?h'"
    using assms(1,3,4) ok by (rule translate_moved)
  moreover have "py_num_add (position_x (boxes h i)) dx = Inr (position_x (boxes ?h' i))
                 \<and> py_num_add (position_y (boxes h i)) dy = Inr (position_y (boxes ?h' i))
                 \<and> (boxes ?h' i)\<lparr>position_x := position_x (boxes h i),
                                 position_y := position_y (boxes h i)\<rparr> = boxes h i"
    if "i \<in> ?S" for i
  proof -
    from ok that have "Box_translate (boxes h i) dx dy = Inr (translated (boxes h i) dx dy)"
      by (simp add: translatable_iff)
    from Box_translate_Inr [OF this] that show ?thesis
      by (simp add: moved_fields)
  qed
  moreover have "boxes ?h' i = boxes h i" if "i \<notin> ?S" for i
    using that by (simp add: moved_fields)
  moreover have "?h'\<lparr>boxes := boxes h\<rparr> = h"
    by (simp add: moved_def)
  ultimately show "\<exists>h'. translate n h (root t) dx dy = Inr h'
             \<and> (\<forall>i \<in> set (preorder t).
                   py_num_add (position_x (boxes h i)) dx = Inr (position_x (boxes h' i))
                 \<and> py_num_add (position_y (boxes h i)) dy = Inr (position_y (boxes h' i))
                 \<and> (boxes h' i)\<lparr>position_x := position_x (boxes h i),
                                 position_y := position_y (boxes h i)\<rparr> = boxes h i)
             \<and> (\<forall>i. i \<notin> set (preorder t) \<longrightarrow> boxes h' i = boxes h i)
             \<and> h'\<lparr>boxes := boxes h\<rparr> = h"
    by blast
next
  let ?S = "set (preorder t)"
  assume ints: "\<forall>i \<in> ?S. \<exists>p q. position_x (boxes h i) = PyInt p \<and> position_y (boxes h i) = PyInt q"
  have ok: "\<forall>i \<in> ?S. translatable (boxes h i) (PyInt x) (PyInt y)" for x y
    using ints by (auto intro: translatable_ints)
  let ?h1 = "moved ?S (PyInt a1) (PyInt b1) h"
  have one: "translate n h (root t) (PyInt a1) (PyInt b1) = Inr ?h1"
    using assms(1,3,4) ok by (rule translate_moved)
  have ints1: "\<forall>i \<in> ?S. \<exists>p q. position_x (boxes ?h1 i) = PyInt p \<and> position_y (boxes ?h1 i) = PyInt q"
  proof
    fix i assume i: "i \<in> ?S"
    with ints obtain p q where
      "position_x (boxes h i) = PyInt p" "position_y (boxes h i) = PyInt q"
      by blast
    with i show "\<exists>p q. position_x (boxes ?h1 i) = PyInt p \<and> position_y (boxes ?h1 i) = PyInt q"
      by (simp add: moved_fields translated_def translated_ints)
  qed
  have two: "translate n ?h1 (root t) (PyInt a2) (PyInt b2)
               = Inr (moved ?S (PyInt a2) (PyInt b2) ?h1)"
  proof (rule translate_moved)
    show "shape ?h1 t" using assms(1) by (simp add: shape_moved)
    show "distinct (preorder t)" by (rule assms(3))
    show "depth t \<le> n" by (rule assms(4))
    show "\<forall>i \<in> ?S. translatable (boxes ?h1 i) (PyInt a2) (PyInt b2)"
      using ints1 by (auto intro: translatable_ints)
  qed
  have sum: "translate n h (root t) (PyInt (a1 + a2)) (PyInt (b1 + b2))
               = Inr (moved ?S (PyInt (a1 + a2)) (PyInt (b1 + b2)) h)"
    using assms(1,3,4) ok by (rule translate_moved)
  show "\<exists>h2. translate_twice n h (root t) (PyInt a1) (PyInt b1) (PyInt a2) (PyInt b2) = Inr h2
             \<and> translate n h (root t) (PyInt (a1 + a2)) (PyInt (b1 + b2)) = Inr h2"
    using one two sum moved_ints_twice [OF ints]
    by (simp add: translate_twice_def)
qed

lemma example_tree_shape:
  "shape example_tree_store example_tree"
  "is_ParentBox (kind (boxes example_tree_store (root example_tree)))"
  "distinct (preorder example_tree)"
  "depth example_tree \<le> 3"
  "root example_tree = 0"
  "preorder example_tree = [0, 1, 3, 2]"
  by (simp_all add: example_tree_store_def example_tree_def example_box_def)

lemma example_tree_positions:
  "\<forall>i \<in> set (preorder example_tree).
     \<exists>p q. position_x (boxes example_tree_store i) = PyInt p
        \<and> position_y (boxes example_tree_store i) = PyInt q"
  by (simp add: example_tree_shape(6)) (simp add: example_tree_store_def example_box_def)

theorem translate_container_witness:
  "shape example_tree_store example_tree
   \<and> is_ParentBox (kind (boxes example_tree_store (root example_tree)))
   \<and> distinct (preorder example_tree)
   \<and> depth example_tree \<le> 3
   \<and> preorder example_tree = [0, 1, 3, 2]
   \<and> translatable (boxes example_tree_store 0) (PyInt 5) (PyInt 7)
   \<and> translatable (boxes example_tree_store 1) (PyInt 5) (PyInt 7)
   \<and> translatable (boxes example_tree_store 3) (PyInt 5) (PyInt 7)
   \<and> translatable (boxes example_tree_store 2) (PyInt 5) (PyInt 7)
   \<and> position_x (boxes example_tree_store 0) = PyInt 0
   \<and> position_y (boxes example_tree_store 0) = PyInt 0
   \<and> position_x (boxes example_tree_store 1) = PyInt 0
   \<and> position_y (boxes example_tree_store 1) = PyInt 0
   \<and> position_x (boxes example_tree_store 3) = PyInt 0
   \<and> position_y (boxes example_tree_store 3) = PyInt 0
   \<and> position_x (boxes example_tree_store 2) = PyInt 0
   \<and> position_y (boxes example_tree_store 2) = PyInt 0
   \<and> position_after (translate 3 example_tree_store 0 (PyInt 5) (PyInt 7)) 0
       = Inr (PyInt 5, PyInt 7)
   \<and> position_after (translate 3 example_tree_store 0 (PyInt 5) (PyInt 7)) 1
       = Inr (PyInt 5, PyInt 7)
   \<and> position_after (translate 3 example_tree_store 0 (PyInt 5) (PyInt 7)) 2
       = Inr (PyInt 5, PyInt 7)
   \<and> position_after (translate 3 example_tree_store 0 (PyInt 5) (PyInt 7)) 3
       = Inr (PyInt 5, PyInt 7)
   \<and> position_after (translate 3 example_tree_store 0 (PyInt 5) (PyInt 7)) 4
       = Inr (PyInt 0, PyInt 0)
   \<and> translate_twice 3 example_tree_store 0 (PyInt 5) (PyInt 7) (PyInt 1) (PyInt 2)
       = translate 3 example_tree_store 0 (PyInt 6) (PyInt 9)"
proof -
  have ok: "\<forall>i \<in> set (preorder example_tree).
         translatable (boxes example_tree_store i) (PyInt 5) (PyInt 7)"
    using example_tree_positions by (auto intro: translatable_ints)
  note main = translate_container [OF example_tree_shape(1-4)]
  from main [of "PyInt 5" "PyInt 7" 0 0 0 0, THEN conjunct1, THEN mp, OF ok]
  obtain h' where t: "translate 3 example_tree_store (root example_tree) (PyInt 5) (PyInt 7) = Inr h'"
    and inside: "\<forall>i \<in> set (preorder example_tree).
        py_num_add (position_x (boxes example_tree_store i)) (PyInt 5) = Inr (position_x (boxes h' i))
      \<and> py_num_add (position_y (boxes example_tree_store i)) (PyInt 7) = Inr (position_y (boxes h' i))"
    and outside: "\<forall>i. i \<notin> set (preorder example_tree) \<longrightarrow> boxes h' i = boxes example_tree_store i"
    by blast
  have p: "position_x (boxes example_tree_store i) = PyInt 0"
    "position_y (boxes example_tree_store i) = PyInt 0" for i
    by (simp_all add: example_tree_store_def example_box_def)
  have q: "position_x (boxes h' i) = PyInt 5" "position_y (boxes h' i) = PyInt 7"
    if "i \<in> set (preorder example_tree)" for i
    using inside [rule_format, OF that, THEN conjunct1, symmetric]
      inside [rule_format, OF that, THEN conjunct2, symmetric]
    by (simp_all add: p)
  have each: "translatable (boxes example_tree_store 0) (PyInt 5) (PyInt 7)"
    "translatable (boxes example_tree_store 1) (PyInt 5) (PyInt 7)"
    "translatable (boxes example_tree_store 3) (PyInt 5) (PyInt 7)"
    "translatable (boxes example_tree_store 2) (PyInt 5) (PyInt 7)"
    using ok by (simp_all add: example_tree_shape(6))
  have "position_x (boxes h' 0) = PyInt 5 \<and> position_y (boxes h' 0) = PyInt 7"
    "position_x (boxes h' 1) = PyInt 5 \<and> position_y (boxes h' 1) = PyInt 7"
    "position_x (boxes h' 2) = PyInt 5 \<and> position_y (boxes h' 2) = PyInt 7"
    "position_x (boxes h' 3) = PyInt 5 \<and> position_y (boxes h' 3) = PyInt 7"
    using q [of 0] q [of 1] q [of 2] q [of 3] by (simp_all add: example_tree_shape(6))
  moreover from outside have "boxes h' 4 = boxes example_tree_store 4"
    by (simp add: example_tree_shape(6))
  moreover
  from main [of "PyInt 0" "PyInt 0" 5 7 1 2, THEN conjunct2, THEN mp, OF example_tree_positions]
  have "translate_twice 3 example_tree_store 0 (PyInt 5) (PyInt 7) (PyInt 1) (PyInt 2)
       = translate 3 example_tree_store 0 (PyInt 6) (PyInt 9)"
    by (auto simp: example_tree_shape(5))
  ultimately show ?thesis
    using t each example_tree_shape(1-4,6)
    by (simp add: example_tree_shape(5) position_after_def p)
qed

text \<open>
  Two stores on which the claim fails. In the first, \<^verbatim>\<open>add_child\<close> has added the text
  box 41 twice to the block box 40: translating 40 by \<open>(5, 7)\<close> moves 41 by
  \<open>(10, 14)\<close>. In the second, the block box 50 is at the float position
  \<open>(2.0 ** 53, 0.0)\<close>: translating it twice by \<open>(1.0, 0.0)\<close> leaves it where it is,
  and translating it once by \<open>(1.0 + 1.0, 0.0 + 0.0)\<close> moves it to \<open>2.0 ** 53 + 2\<close>.
\<close>

theorem translate_counterexample:
  "add_child example_pair_store 40 41 = Inr example_once_store
   \<and> add_child example_once_store 40 41 = Inr example_twice_store
   \<and> is_ParentBox (kind (boxes example_twice_store 40))
   \<and> descendants 2 example_twice_store 40 = Inr [40, 41, 41]
   \<and> position_x (boxes example_twice_store 41) = PyInt 0
   \<and> position_y (boxes example_twice_store 41) = PyInt 0
   \<and> position_after (translate 2 example_twice_store 40 (PyInt 5) (PyInt 7)) 41
       = Inr (PyInt 10, PyInt 14)
   \<and> is_ParentBox (kind (boxes example_float_store 50))
   \<and> position_after
        (translate_twice 1 example_float_store 50
           (PyFloat float_1) (PyFloat float_0) (PyFloat float_1) (PyFloat float_0)) 50
       = Inr (PyFloat float_2_53, PyFloat float_0)
   \<and> py_num_add (PyFloat float_1) (PyFloat float_1) = Inr (PyFloat float_2)
   \<and> py_num_add (PyFloat float_0) (PyFloat float_0) = Inr (PyFloat float_0)
   \<and> position_after
        (translate 1 example_float_store 50 (PyFloat float_2) (PyFloat float_0)) 50
       = Inr (PyFloat float_2_53_plus_2, PyFloat float_0)
   \<and> PyFloat float_2_53 \<noteq> PyFloat float_2_53_plus_2"
proof -
  have a: "add_child example_pair_store 40 41 = Inr example_once_store"
    "add_child example_once_store 40 41 = Inr example_twice_store"
    by (simp_all add: add_child_def example_pair_store_def example_once_store_def
        example_twice_store_def example_box_def Let_def)
  have b: "is_ParentBox (kind (boxes example_twice_store 40))"
    "descendants 2 example_twice_store 40 = Inr [40, 41, 41]"
    "position_x (boxes example_twice_store 41) = PyInt 0"
    "position_y (boxes example_twice_store 41) = PyInt 0"
    by (simp_all add: example_pair_store_def example_twice_store_def example_box_def
        numeral_2_eq_2)
  have c: "position_after (translate 2 example_twice_store 40 (PyInt 5) (PyInt 7)) 41
       = Inr (PyInt 10, PyInt 14)"
    by (simp add: example_pair_store_def example_twice_store_def example_box_def
        numeral_2_eq_2 Box_translate_def position_after_def Let_def)
  have d: "is_ParentBox (kind (boxes example_float_store 50))"
    "position_after
        (translate_twice 1 example_float_store 50
           (PyFloat float_1) (PyFloat float_0) (PyFloat float_1) (PyFloat float_0)) 50
       = Inr (PyFloat float_2_53, PyFloat float_0)"
    "position_after
        (translate 1 example_float_store 50 (PyFloat float_2) (PyFloat float_0)) 50
       = Inr (PyFloat float_2_53_plus_2, PyFloat float_0)"
    by (simp_all add: example_float_store_def example_box_def translate_twice_def
        Box_translate_def position_after_def Let_def example_float_sums)
  have e: "PyFloat float_2_53 \<noteq> PyFloat float_2_53_plus_2"
    by (simp add: float_2_53_def float_2_53_plus_2_def)
  show ?thesis
    using a b c d e by (simp add: example_float_sums)
qed

section \<open>Descendants\<close>

lemma shape_leaf:
  "shape h t \<Longrightarrow> \<not> is_ParentBox (kind (boxes h (root t))) \<Longrightarrow> preorder t = [root t]"
  by (cases t) simp

lemma yield_children_preorder:
  assumes "\<And>t. t \<in> set ts \<Longrightarrow> is_ParentBox (kind (boxes h (root t))) \<Longrightarrow>
             f (root t) = Inr (preorder t)"
    and "\<forall>t \<in> set ts. shape h t"
  shows "yield_children f h (map root ts) = Inr (concat (map preorder ts))"
  using assms
proof (induction ts)
  case Nil
  then show ?case by simp
next
  case (Cons t ts)
  have rest: "yield_children f h (map root ts) = Inr (concat (map preorder ts))"
    using Cons.prems by (intro Cons.IH) simp_all
  show ?case
  proof (cases "is_ParentBox (kind (boxes h (root t)))")
    case True
    then have "f (root t) = Inr (preorder t)"
      using Cons.prems(1) by simp
    with True rest show ?thesis by simp
  next
    case False
    then have "preorder t = [root t]"
      using Cons.prems(2) by (intro shape_leaf [of h]) simp_all
    with False rest show ?thesis by simp
  qed
qed

lemma descendants_shape:
  "shape h t \<Longrightarrow> is_ParentBox (kind (boxes h (root t))) \<Longrightarrow> depth t \<le> n \<Longrightarrow>
     descendants n h (root t) = Inr (preorder t)"
proof (induction t arbitrary: n)
  case (Node r ts)
  from Node.prems(3) obtain m where n: "n = Suc m" and m: "maxs (map depth ts) \<le> m"
    by (cases n) auto
  from Node.prems(1,2) obtain d where d: "children (boxes h r) = Val d"
    and cs: "deques h d = map root ts" and sub: "\<forall>t \<in> set ts. shape h t"
    by (auto split: slot.splits)
  have "yield_children (\<lambda>child. descendants m h child) h (map root ts)
          = Inr (concat (map preorder ts))"
  proof (rule yield_children_preorder)
    fix t assume "t \<in> set ts" "is_ParentBox (kind (boxes h (root t)))"
    then show "descendants m h (root t) = Inr (preorder t)"
      using Node.IH [of t m] sub depth_child [of t ts] m by simp
  qed (rule sub)
  with Node.prems(2) d cs show ?case
    by (simp add: n)
qed

text \<open>
  C5, as the code has it. \<^verbatim>\<open>descendants\<close> is a method of the container classes only.
  On a container below which the store holds a tree, with generators nested deep enough,
  it yields the finite sequence of the tree in depth-first pre-order: the box, then for
  each child in order what the child's own \<^verbatim>\<open>descendants\<close> yields when the child is a
  container, and the child itself when it is not. So a container with the children
  \<open>c1\<close> and \<open>c2\<close>, where \<open>c1\<close> has the only child \<open>g1\<close>, and \<open>g1\<close> and \<open>c2\<close> have no
  children, yields the box, \<open>c1\<close>, \<open>g1\<close>, \<open>c2\<close>; a container without children yields
  itself only. On a box that is not a container the call raises \<^verbatim>\<open>AttributeError\<close>.
\<close>

theorem descendants_preorder:
  "(shape h t \<and> is_ParentBox (kind (boxes h (root t))) \<and> depth t \<le> n
      \<longrightarrow> descendants n h (root t) = Inr (preorder t))
   \<and> (shape h (Node b [Node c1 [Node g1 []], Node c2 []]) \<and> 3 \<le> n
      \<longrightarrow> descendants n h b = Inr [b, c1, g1, c2])
   \<and> (is_ParentBox (kind (boxes h r)) \<and> children (boxes h r) = Val d \<and> deques h d = []
      \<longrightarrow> descendants (Suc n) h r = Inr [r])
   \<and> (\<not> is_ParentBox (kind (boxes h r)) \<longrightarrow> descendants (Suc n) h r = Inl AttributeError)"
proof (intro conjI impI)
  assume "shape h t \<and> is_ParentBox (kind (boxes h (root t))) \<and> depth t \<le> n"
  then show "descendants n h (root t) = Inr (preorder t)"
    by (simp add: descendants_shape)
next
  let ?t = "Node b [Node c1 [Node g1 []], Node c2 []]"
  assume a: "shape h ?t \<and> 3 \<le> n"
  then have "is_ParentBox (kind (boxes h (root ?t)))"
    by (auto split: if_splits)
  moreover have "depth ?t \<le> n" using a by simp
  ultimately have "descendants n h (root ?t) = Inr (preorder ?t)"
    using a by (intro descendants_shape) simp_all
  then show "descendants n h b = Inr [b, c1, g1, c2]" by simp
next
  assume "is_ParentBox (kind (boxes h r)) \<and> children (boxes h r) = Val d \<and> deques h d = []"
  then show "descendants (Suc n) h r = Inr [r]" by simp
next
  assume "\<not> is_ParentBox (kind (boxes h r))"
  then show "descendants (Suc n) h r = Inl AttributeError" by simp
qed

theorem descendants_preorder_witness:
  "shape example_tree_store (Node 0 [Node 1 [Node 3 []], Node 2 []])
   \<and> descendants 3 example_tree_store 0 = Inr [0, 1, 3, 2]
   \<and> shape example_tree_store example_tree
   \<and> is_ParentBox (kind (boxes example_tree_store (root example_tree)))
   \<and> depth example_tree \<le> 3
   \<and> descendants 3 example_tree_store (root example_tree) = Inr (preorder example_tree)
   \<and> is_ParentBox (kind (boxes example_page_store 13))
   \<and> descendants 1 example_page_store 13 = Inr [13]
   \<and> \<not> is_ParentBox (kind (boxes example_tree_store 3))
   \<and> descendants 1 example_tree_store 3 = Inl AttributeError"
proof -
  have s: "shape example_tree_store (Node 0 [Node 1 [Node 3 []], Node 2 []])"
    using example_tree_shape(1) by (simp only: example_tree_def)
  have p: "is_ParentBox (kind (boxes example_page_store 13))"
    "children (boxes example_page_store 13) = Val 23" "deques example_page_store 23 = []"
    by (simp_all add: example_page_store_def example_box_def)
  have l: "\<not> is_ParentBox (kind (boxes example_tree_store 3))"
    by (simp add: example_tree_store_def example_box_def)
  have "descendants 3 example_tree_store 0 = Inr [0, 1, 3, 2]"
    using descendants_preorder [of example_tree_store _ 3 0 1 3 2] s by simp
  moreover have "descendants 3 example_tree_store (root example_tree) = Inr (preorder example_tree)"
    using descendants_preorder [of example_tree_store example_tree 3] example_tree_shape(1,2,4)
    by simp
  moreover have "descendants 1 example_page_store 13 = Inr [13]"
    using descendants_preorder [of example_page_store _ 0 _ _ _ _ 13 23] p by simp
  moreover have "descendants 1 example_tree_store 3 = Inl AttributeError"
    using descendants_preorder [of example_tree_store _ 0 _ _ _ _ 3] l by simp
  ultimately show ?thesis using s p l example_tree_shape(1,2,4) by simp
qed

text \<open>The text box 3 of the example is a leaf: calling \<^verbatim>\<open>descendants\<close> on it does not
  yield the box, it raises.\<close>

theorem descendants_leaf_counterexample:
  "\<not> is_ParentBox (kind (boxes example_tree_store 3))
   \<and> descendants 3 example_tree_store 3 = Inl AttributeError
   \<and> descendants 3 example_tree_store 3 \<noteq> Inr [3]"
  by (simp add: example_tree_store_def example_box_def numeral_3_eq_3)

section \<open>The containing block\<close>

lemma ancestors_Nil_iff: "ancestors h r = Some [] \<longleftrightarrow> parent (boxes h r) = None"
  by (subst ancestors.simps) (auto split: option.splits simp: bind_eq_Some_conv)

lemma ancestors_Cons_iff:
  "ancestors h r = Some (p # ps) \<longleftrightarrow> parent (boxes h r) = Some p \<and> ancestors h p = Some ps"
  by (subst ancestors.simps) (auto split: option.splits simp: bind_eq_Some_conv)

lemma fixed_loop_found:
  "ancestors h r = Some (pre @ pg # post) \<Longrightarrow> \<forall>a \<in> set pre. kind (boxes h a) \<noteq> PageBox \<Longrightarrow>
   kind (boxes h pg) = PageBox \<Longrightarrow> fixed_loop h r = Some (box_size (boxes h pg))"
proof (induction pre arbitrary: r)
  case Nil
  then show ?case
    by (subst fixed_loop.simps) (simp add: ancestors_Cons_iff)
next
  case (Cons a pre)
  then have "fixed_loop h a = Some (box_size (boxes h pg))"
    by (simp add: ancestors_Cons_iff)
  with Cons.prems show ?case
    by (subst fixed_loop.simps) (simp add: ancestors_Cons_iff)
qed

lemma fixed_loop_exhausted:
  "ancestors h r = Some as \<Longrightarrow> \<forall>a \<in> set as. kind (boxes h a) \<noteq> PageBox \<Longrightarrow>
   fixed_loop h r = Some (Inl (AssertionError ''Page not found''))"
proof (induction as arbitrary: r)
  case Nil
  then show ?case
    by (subst fixed_loop.simps) (simp add: ancestors_Nil_iff)
next
  case (Cons a as)
  then have "fixed_loop h a = Some (Inl (AssertionError ''Page not found''))"
    by (simp add: ancestors_Cons_iff)
  with Cons.prems show ?case
    by (subst fixed_loop.simps) (simp add: ancestors_Cons_iff)
qed

lemma absolute_loop_stop:
  assumes "parent (boxes h r) = Some a"
    and "is_positioned g h a \<and> (\<exists>disp. keyword_of g h a ''display'' = Inr disp)
         \<or> is_unpositioned g h a \<and> kind (boxes h a) = PageBox"
  shows "absolute_loop g h r = Some (box_size (boxes h a))"
  using assms
  by (subst absolute_loop.simps)
     (auto simp: is_positioned_def is_unpositioned_def split: sum.splits)

lemma absolute_loop_step:
  assumes "parent (boxes h r) = Some a"
    and "is_unpositioned g h a" and "kind (boxes h a) \<noteq> PageBox"
  shows "absolute_loop g h r = absolute_loop g h a"
  using assms
  by (subst absolute_loop.simps)
     (auto simp: is_unpositioned_def split: sum.splits)

lemma absolute_loop_found:
  "ancestors h r = Some (pre @ a # post) \<Longrightarrow>
   \<forall>x \<in> set pre. is_unpositioned g h x \<and> kind (boxes h x) \<noteq> PageBox \<Longrightarrow>
   is_positioned g h a \<and> (\<exists>disp. keyword_of g h a ''display'' = Inr disp)
     \<or> is_unpositioned g h a \<and> kind (boxes h a) = PageBox \<Longrightarrow>
   absolute_loop g h r = Some (box_size (boxes h a))"
proof (induction pre arbitrary: r)
  case Nil
  then show ?case
    by (intro absolute_loop_stop) (simp_all add: ancestors_Cons_iff)
next
  case (Cons x pre)
  then have "absolute_loop g h x = Some (box_size (boxes h a))"
    by (simp add: ancestors_Cons_iff)
  moreover have "absolute_loop g h r = absolute_loop g h x"
    using Cons.prems by (intro absolute_loop_step) (simp_all add: ancestors_Cons_iff)
  ultimately show ?case by simp
qed

text \<open>
  C2. For a box that is not itself a page box: when its parent is a page box, the
  containing block is the content size \<^verbatim>\<open>(width, height)\<close> of that parent, whatever the
  position of the box; when its position is \<^verbatim>\<open>static\<close> or \<^verbatim>\<open>relative\<close>, it is the
  content size of the parent; when its position is \<^verbatim>\<open>absolute\<close>, it is the content size
  of the first ancestor that is positioned (\<^verbatim>\<open>absolute\<close>, \<^verbatim>\<open>relative\<close> or \<^verbatim>\<open>fixed\<close>),
  whatever the display of that ancestor, or of the page box when the page box comes
  first.
\<close>

theorem containing_block_resolution:
  assumes "kind (boxes h r) \<noteq> PageBox"
  shows "(parent (boxes h r) = Some p \<and> kind (boxes h p) = PageBox
            \<longrightarrow> containing_block_size g h r = Some (box_size (boxes h p)))
     \<and> (parent (boxes h r) = Some p
          \<and> (keyword_of g h r ''position'' = Inr (Some ''static'')
             \<or> keyword_of g h r ''position'' = Inr (Some ''relative''))
            \<longrightarrow> containing_block_size g h r = Some (box_size (boxes h p)))
     \<and> (keyword_of g h r ''position'' = Inr (Some ''absolute'')
          \<and> ancestors h r = Some (pre @ a # post)
          \<and> (\<forall>x \<in> set pre. is_unpositioned g h x \<and> kind (boxes h x) \<noteq> PageBox)
          \<and> is_positioned g h a \<and> keyword_of g h a ''display'' = Inr disp
            \<longrightarrow> containing_block_size g h r = Some (box_size (boxes h a)))
     \<and> (keyword_of g h r ''position'' = Inr (Some ''absolute'')
          \<and> ancestors h r = Some (pre @ a # post)
          \<and> (\<forall>x \<in> set pre. is_unpositioned g h x \<and> kind (boxes h x) \<noteq> PageBox)
          \<and> is_unpositioned g h a \<and> kind (boxes h a) = PageBox
            \<longrightarrow> containing_block_size g h r = Some (box_size (boxes h a)))
     \<and> (width (boxes h a) = Val w \<and> height (boxes h a) = Val ht
            \<longrightarrow> box_size (boxes h a) = Inr (Some w, Some ht))"
proof (intro conjI impI)
  assume "parent (boxes h r) = Some p \<and> kind (boxes h p) = PageBox"
  with assms show "containing_block_size g h r = Some (box_size (boxes h p))"
    by (simp add: containing_block_size_def Box_containing_block_size_def parent_size_def Let_def)
next
  assume "parent (boxes h r) = Some p
          \<and> (keyword_of g h r ''position'' = Inr (Some ''static'')
             \<or> keyword_of g h r ''position'' = Inr (Some ''relative''))"
  with assms show "containing_block_size g h r = Some (box_size (boxes h p))"
    by (auto simp: containing_block_size_def Box_containing_block_size_def parent_size_def Let_def)
next
  assume a: "keyword_of g h r ''position'' = Inr (Some ''absolute'')
          \<and> ancestors h r = Some (pre @ a # post)
          \<and> (\<forall>x \<in> set pre. is_unpositioned g h x \<and> kind (boxes h x) \<noteq> PageBox)
          \<and> is_positioned g h a \<and> keyword_of g h a ''display'' = Inr disp"
  then have loop: "absolute_loop g h r = Some (box_size (boxes h a))"
    by (intro absolute_loop_found [of h r pre a post]) auto
  show "containing_block_size g h r = Some (box_size (boxes h a))"
  proof (cases pre)
    case Nil
    with a have "parent (boxes h r) = Some a" by (simp add: ancestors_Cons_iff)
    with assms a loop show ?thesis
      by (simp add: containing_block_size_def Box_containing_block_size_def parent_size_def Let_def)
  next
    case (Cons x pre')
    with a have "parent (boxes h r) = Some x" "kind (boxes h x) \<noteq> PageBox"
      by (simp_all add: ancestors_Cons_iff)
    with assms a loop show ?thesis
      by (simp add: containing_block_size_def Box_containing_block_size_def parent_size_def Let_def)
  qed
next
  assume a: "keyword_of g h r ''position'' = Inr (Some ''absolute'')
          \<and> ancestors h r = Some (pre @ a # post)
          \<and> (\<forall>x \<in> set pre. is_unpositioned g h x \<and> kind (boxes h x) \<noteq> PageBox)
          \<and> is_unpositioned g h a \<and> kind (boxes h a) = PageBox"
  then have loop: "absolute_loop g h r = Some (box_size (boxes h a))"
    by (intro absolute_loop_found [of h r pre a post]) auto
  show "containing_block_size g h r = Some (box_size (boxes h a))"
  proof (cases pre)
    case Nil
    with a have "parent (boxes h r) = Some a" by (simp add: ancestors_Cons_iff)
    with assms a loop show ?thesis
      by (simp add: containing_block_size_def Box_containing_block_size_def parent_size_def Let_def)
  next
    case (Cons x pre')
    with a have "parent (boxes h r) = Some x" "kind (boxes h x) \<noteq> PageBox"
      by (simp_all add: ancestors_Cons_iff)
    with assms a loop show ?thesis
      by (simp add: containing_block_size_def Box_containing_block_size_def parent_size_def Let_def)
  qed
next
  assume "width (boxes h a) = Val w \<and> height (boxes h a) = Val ht"
  then show "box_size (boxes h a) = Inr (Some w, Some ht)"
    by (simp add: box_size_def)
qed

lemma example_page_store_parents:
  "parent (boxes example_page_store 10) = None"
  "parent (boxes example_page_store 11) = Some 10"
  "parent (boxes example_page_store 12) = Some 11"
  "parent (boxes example_page_store 13) = Some 12"
  "parent (boxes example_page_store 14) = Some 12"
  "parent (boxes example_page_store 15) = Some 12"
  "parent (boxes example_page_store 16) = Some 10"
  "parent (boxes example_page_store 17) = Some 16"
  "parent (boxes example_page_store 18) = None"
  by (simp_all add: example_page_store_def example_box_def)

lemma example_page_store_kinds:
  "kind (boxes example_page_store 10) = PageBox"
  "kind (boxes example_page_store 11) = InlineBox"
  "kind (boxes example_page_store 12) = BlockBox"
  "kind (boxes example_page_store 13) = BlockBox"
  "kind (boxes example_page_store 14) = BlockBox"
  "kind (boxes example_page_store 15) = BlockBox"
  "kind (boxes example_page_store 16) = BlockBox"
  "kind (boxes example_page_store 17) = BlockBox"
  "kind (boxes example_page_store 18) = BlockBox"
  by (simp_all add: example_page_store_def example_box_def)

lemma example_page_store_sizes:
  "box_size (boxes example_page_store 10) = Inr (Some (PyInt 555), Some (PyInt 802))"
  "box_size (boxes example_page_store 11) = Inr (Some (PyInt 200), Some (PyInt 400))"
  "box_size (boxes example_page_store 12) = Inr (Some (PyInt 300), Some (PyInt 900))"
  "outer_width (boxes example_page_store 10) = Val (PyInt 595)"
  "outer_height (boxes example_page_store 10) = Val (PyInt 842)"
  by (simp_all add: example_page_store_def example_box_def box_size_def)

lemma example_page_store_ancestors:
  "ancestors example_page_store 13 = Some [12, 11, 10]"
  "ancestors example_page_store 15 = Some [12, 11, 10]"
  "ancestors example_page_store 17 = Some [16, 10]"
  "ancestors example_page_store 18 = Some []"
  by (simp_all add: ancestors_Cons_iff ancestors_Nil_iff example_page_store_parents)

theorem containing_block_resolution_witness:
  "kind (boxes example_page_store 11) \<noteq> PageBox
   \<and> kind (boxes example_page_store 10) = PageBox
   \<and> containing_block_size example_keyword_reader example_page_store 11
       = Some (Inr (Some (PyInt 555), Some (PyInt 802)))
   \<and> kind (boxes example_page_store 14) \<noteq> PageBox
   \<and> containing_block_size example_keyword_reader example_page_store 14
       = Some (Inr (Some (PyInt 300), Some (PyInt 900)))
   \<and> kind (boxes example_page_store 13) \<noteq> PageBox
   \<and> is_positioned example_keyword_reader example_page_store 11
   \<and> containing_block_size example_keyword_reader example_page_store 13
       = Some (Inr (Some (PyInt 200), Some (PyInt 400)))
   \<and> kind (boxes example_page_store 17) \<noteq> PageBox
   \<and> is_unpositioned example_keyword_reader example_page_store 16
   \<and> containing_block_size example_keyword_reader example_page_store 17
       = Some (Inr (Some (PyInt 555), Some (PyInt 802)))"
proof -
  have k: "kind (boxes example_page_store 11) \<noteq> PageBox"
    "kind (boxes example_page_store 14) \<noteq> PageBox"
    "kind (boxes example_page_store 13) \<noteq> PageBox"
    "kind (boxes example_page_store 17) \<noteq> PageBox"
    by (simp_all add: example_page_store_kinds)
  have pos: "is_positioned example_keyword_reader example_page_store 11"
    "is_unpositioned example_keyword_reader example_page_store 12"
    "is_unpositioned example_keyword_reader example_page_store 16"
    "is_unpositioned example_keyword_reader example_page_store 10"
    by (simp_all add: is_positioned_def is_unpositioned_def example_page_store_keywords)
  have "containing_block_size example_keyword_reader example_page_store 11
       = Some (Inr (Some (PyInt 555), Some (PyInt 802)))"
    using containing_block_resolution [OF k(1), of 10 example_keyword_reader]
    by (simp add: example_page_store_parents example_page_store_kinds example_page_store_sizes)
  moreover have "containing_block_size example_keyword_reader example_page_store 14
       = Some (Inr (Some (PyInt 300), Some (PyInt 900)))"
    using containing_block_resolution [OF k(2), of 12 example_keyword_reader]
    by (simp add: example_page_store_parents example_page_store_keywords
        example_page_store_sizes)
  moreover have "containing_block_size example_keyword_reader example_page_store 13
       = Some (Inr (Some (PyInt 200), Some (PyInt 400)))"
    using containing_block_resolution
      [OF k(3), of _ example_keyword_reader "[12]" 11 "[10]" "Some ''inline''"] pos
    by (simp add: example_page_store_ancestors example_page_store_keywords
        example_page_store_kinds example_page_store_sizes)
  moreover have "containing_block_size example_keyword_reader example_page_store 17
       = Some (Inr (Some (PyInt 555), Some (PyInt 802)))"
    using containing_block_resolution
      [OF k(4), of _ example_keyword_reader "[16]" 10 "[]"] pos
    by (simp add: example_page_store_ancestors example_page_store_keywords
        example_page_store_kinds example_page_store_sizes)
  ultimately show ?thesis
    using k pos by (simp add: example_page_store_kinds)
qed

text \<open>
  The fixed box 15 of the example is three levels below the page box 10, whose outer size is
  595 by 842 and whose content size is 555 by 802: its containing block is not the outer
  size of the page.
\<close>

theorem fixed_outer_size_counterexample:
  "keyword_of example_keyword_reader example_page_store 15 ''position'' = Inr (Some ''fixed'')
   \<and> ancestors example_page_store 15 = Some [12, 11, 10]
   \<and> kind (boxes example_page_store 10) = PageBox
   \<and> outer_width (boxes example_page_store 10) = Val (PyInt 595)
   \<and> outer_height (boxes example_page_store 10) = Val (PyInt 842)
   \<and> containing_block_size example_keyword_reader example_page_store 15
       = Some (Inr (Some (PyInt 555), Some (PyInt 802)))
   \<and> containing_block_size example_keyword_reader example_page_store 15
       \<noteq> Some (Inr (Some (PyInt 595), Some (PyInt 842)))"
proof -
  have "fixed_loop example_page_store 15 = Some (box_size (boxes example_page_store 10))"
    by (rule fixed_loop_found [of _ _ "[12, 11]" _ "[]"])
      (simp_all add: example_page_store_ancestors example_page_store_kinds)
  then have "containing_block_size example_keyword_reader example_page_store 15
       = Some (Inr (Some (PyInt 555), Some (PyInt 802)))"
    by (simp add: containing_block_size_def Box_containing_block_size_def parent_size_def Let_def
        example_page_store_kinds example_page_store_parents example_page_store_keywords
        example_page_store_sizes)
  then show ?thesis
    by (simp add: example_page_store_keywords example_page_store_ancestors
        example_page_store_kinds example_page_store_sizes)
qed

text \<open>
  C3, as the code has it. For a box with position \<^verbatim>\<open>fixed\<close> that is not itself a page
  box, the containing block is the content size \<^verbatim>\<open>(width, height)\<close> of the first page
  box among its ancestors, whatever the sizes of the ancestors before it; when the chain
  of ancestors ends without a page box, the call fails with the assertion error
  "Page not found", which the specification calls \<^verbatim>\<open>ContainingBlockNotFound\<close>.
\<close>

theorem fixed_containing_block:
  assumes "kind (boxes h r) \<noteq> PageBox"
    and "keyword_of g h r ''position'' = Inr (Some ''fixed'')"
  shows "(ancestors h r = Some (pre @ pg # post)
          \<and> (\<forall>a \<in> set pre. kind (boxes h a) \<noteq> PageBox) \<and> kind (boxes h pg) = PageBox
          \<and> width (boxes h pg) = Val w \<and> height (boxes h pg) = Val ht
            \<longrightarrow> containing_block_size g h r = Some (Inr (Some w, Some ht)))
     \<and> (ancestors h r = Some as \<and> (\<forall>a \<in> set as. kind (boxes h a) \<noteq> PageBox)
            \<longrightarrow> containing_block_size g h r = Some (Inl (AssertionError ''Page not found'')))"
proof (intro conjI impI)
  assume a: "ancestors h r = Some (pre @ pg # post)
          \<and> (\<forall>a \<in> set pre. kind (boxes h a) \<noteq> PageBox) \<and> kind (boxes h pg) = PageBox
          \<and> width (boxes h pg) = Val w \<and> height (boxes h pg) = Val ht"
  then have size: "box_size (boxes h pg) = Inr (Some w, Some ht)"
    by (simp add: box_size_def)
  from a have loop: "fixed_loop h r = Some (box_size (boxes h pg))"
    by (intro fixed_loop_found [of h r pre pg post]) auto
  show "containing_block_size g h r = Some (Inr (Some w, Some ht))"
  proof (cases pre)
    case Nil
    with a have "parent (boxes h r) = Some pg" by (simp add: ancestors_Cons_iff)
    with assms a size show ?thesis
      by (simp add: containing_block_size_def Box_containing_block_size_def parent_size_def Let_def)
  next
    case (Cons x pre')
    with a have "parent (boxes h r) = Some x" "kind (boxes h x) \<noteq> PageBox"
      by (simp_all add: ancestors_Cons_iff)
    with assms loop size show ?thesis
      by (simp add: containing_block_size_def Box_containing_block_size_def parent_size_def Let_def)
  qed
next
  assume a: "ancestors h r = Some as \<and> (\<forall>a \<in> set as. kind (boxes h a) \<noteq> PageBox)"
  then have loop: "fixed_loop h r = Some (Inl (AssertionError ''Page not found''))"
    by (intro fixed_loop_exhausted [of h r as]) auto
  show "containing_block_size g h r = Some (Inl (AssertionError ''Page not found''))"
  proof (cases as)
    case Nil
    with a have "parent (boxes h r) = None" by (simp add: ancestors_Nil_iff)
    with assms loop show ?thesis
      by (simp add: containing_block_size_def Box_containing_block_size_def parent_size_def Let_def)
  next
    case (Cons x as')
    with a have "parent (boxes h r) = Some x" "kind (boxes h x) \<noteq> PageBox"
      by (simp_all add: ancestors_Cons_iff)
    with assms loop show ?thesis
      by (simp add: containing_block_size_def Box_containing_block_size_def parent_size_def Let_def)
  qed
qed

theorem fixed_containing_block_witness:
  "kind (boxes example_page_store 15) \<noteq> PageBox
   \<and> keyword_of example_keyword_reader example_page_store 15 ''position'' = Inr (Some ''fixed'')
   \<and> ancestors example_page_store 15 = Some ([12, 11] @ 10 # [])
   \<and> containing_block_size example_keyword_reader example_page_store 15
       = Some (Inr (Some (PyInt 555), Some (PyInt 802)))
   \<and> kind (boxes example_page_store 18) \<noteq> PageBox
   \<and> keyword_of example_keyword_reader example_page_store 18 ''position'' = Inr (Some ''fixed'')
   \<and> ancestors example_page_store 18 = Some []
   \<and> containing_block_size example_keyword_reader example_page_store 18
       = Some (Inl (AssertionError ''Page not found''))"
proof -
  have k: "kind (boxes example_page_store 15) \<noteq> PageBox"
    "kind (boxes example_page_store 18) \<noteq> PageBox"
    by (simp_all add: example_page_store_kinds)
  have "containing_block_size example_keyword_reader example_page_store 15
       = Some (Inr (Some (PyInt 555), Some (PyInt 802)))"
    using fixed_containing_block
      [OF k(1) example_page_store_keywords(6), of "[12, 11]" 10 "[]" "PyInt 555" "PyInt 802"]
    by (simp add: example_page_store_ancestors example_page_store_kinds)
      (simp add: example_page_store_def example_box_def)
  moreover have "containing_block_size example_keyword_reader example_page_store 18
       = Some (Inl (AssertionError ''Page not found''))"
    using fixed_containing_block
      [OF k(2) example_page_store_keywords(9), of _ _ _ _ _ "[]"]
    by (simp add: example_page_store_ancestors)
  ultimately show ?thesis
    using k by (simp add: example_page_store_keywords example_page_store_ancestors)
qed

end
